theory Spec2Isabelle
  imports Main
begin

unbundle bit_operations_syntax

section \<open>Python values and builtins used by raider/plugins.py\<close>

text \<open>
  A Python \<open>str\<close> is a \<^typ>\<open>string\<close>, one \<^typ>\<open>char\<close> per code point (code points below
  256). \<open>Optional[str]\<close> is \<^typ>\<open>string option\<close>. An exception is a value of
  \<^typ>\<open>'e + 'a\<close>: \<open>Inl\<close> carries the exception raised, \<open>Inr\<close> the value returned.
\<close>

datatype exn =
    TypeError
  | KeyError
  | IndexError
  | ValueError
  | AttributeError
  | JSONDecodeError
  | ReError

text \<open>The \<open>logging\<close> module: a record is the level, the format string and its arguments.\<close>

datatype level = DEBUG | WARNING

datatype log_record = Log level string "string list"

text \<open>Truth value of an \<open>Optional[str]\<close>: \<open>None\<close> and the empty string are false.\<close>

definition truthy :: "string option \<Rightarrow> bool" where
  "truthy v = (case v of None \<Rightarrow> False | Some s \<Rightarrow> s \<noteq> [])"

text \<open>\<open>str(v)\<close> for an \<open>Optional[str]\<close>, as the log arguments are rendered.\<close>

definition str_opt :: "string option \<Rightarrow> string" where
  "str_opt v = (case v of None \<Rightarrow> ''None'' | Some s \<Rightarrow> s)"

text \<open>\<open>s.startswith(p)\<close> and \<open>s.strip(chars)\<close>.\<close>

definition startswith :: "string \<Rightarrow> string \<Rightarrow> bool" where
  "startswith s p = (take (length p) s = p)"

definition py_strip :: "string \<Rightarrow> string \<Rightarrow> string" where
  "py_strip chars s =
     rev (dropWhile (\<lambda>c. c \<in> set chars) (rev (dropWhile (\<lambda>c. c \<in> set chars) s)))"

text \<open>\<open>sep.join(xs)\<close>.\<close>

fun join :: "string \<Rightarrow> string list \<Rightarrow> string" where
  "join sep [] = []"
| "join sep [x] = x"
| "join sep (x # y # ys) = x @ sep @ join sep (y # ys)"

text \<open>\<open>xs[i]\<close> on a list, tuple or string: a negative index counts from the end, an index
  out of range raises IndexError.\<close>

definition py_index :: "'a list \<Rightarrow> int \<Rightarrow> exn + 'a" where
  "py_index xs i =
     (if 0 \<le> i \<and> i < int (length xs) then Inr (xs ! nat i)
      else if i < 0 \<and> - int (length xs) \<le> i then Inr (xs ! nat (int (length xs) + i))
      else Inl IndexError)"

text \<open>\<open>x in s\<close> for two strings: \<open>x\<close> occurs in \<open>s\<close> as a substring.\<close>

fun str_contains :: "string \<Rightarrow> string \<Rightarrow> bool" where
  "str_contains x [] = (x = [])"
| "str_contains x (c # cs) = (take (length x) (c # cs) = x \<or> str_contains x cs)"

subsection \<open>int(s)\<close>

text \<open>
  \<open>int(s)\<close> on a string: surrounding whitespace is dropped, then an optional sign, then
  decimal digits, where a single underscore may stand between two digits. Anything else
  raises ValueError. The whitespace \<open>int\<close> drops is tab to carriage return (9 to 13), the
  space, and the two spaces beyond ASCII (133 and 160); the separators 28 to 31 are not
  dropped. More than 4300 digits raise ValueError too (the default limit of the
  interpreter since version 3.11).
\<close>

definition py_isspace :: "char \<Rightarrow> bool" where
  "py_isspace c =
     (let n = (of_char c :: nat)
      in (9 \<le> n \<and> n \<le> 13) \<or> n = 32 \<or> n = 133 \<or> n = 160)"

definition is_digit :: "char \<Rightarrow> bool" where
  "is_digit c = (let n = (of_char c :: nat) in 48 \<le> n \<and> n \<le> 57)"

definition digit_val :: "char \<Rightarrow> nat" where
  "digit_val c = (of_char c :: nat) - 48"

fun parse_digits :: "nat \<Rightarrow> bool \<Rightarrow> string \<Rightarrow> nat option" where
  "parse_digits acc prev_digit [] = (if prev_digit then Some acc else None)"
| "parse_digits acc prev_digit (c # cs) =
     (if is_digit c then parse_digits (10 * acc + digit_val c) True cs
      else if c = CHR ''_'' \<and> prev_digit then parse_digits acc False cs
      else None)"

definition py_int :: "string \<Rightarrow> exn + int" where
  "py_int s =
     (let t = rev (dropWhile py_isspace (rev (dropWhile py_isspace s)));
          neg = (t \<noteq> [] \<and> hd t = CHR ''-'');
          u = (if t \<noteq> [] \<and> (hd t = CHR ''-'' \<or> hd t = CHR ''+'') then tl t else t)
      in case parse_digits 0 False u of
           None \<Rightarrow> Inl ValueError
         | Some n \<Rightarrow>
             if 4300 < length (filter is_digit u) then Inl ValueError
             else Inr (if neg then - int n else int n))"

subsection \<open>str(n) and repr\<close>

definition digit_char :: "nat \<Rightarrow> char" where
  "digit_char d = ''0123456789abcdef'' ! d"

fun str_nat :: "nat \<Rightarrow> string" where
  "str_nat n =
     (if n < 10 then [digit_char n] else str_nat (n div 10) @ [digit_char (n mod 10)])"

definition str_int :: "int \<Rightarrow> string" where
  "str_int i = (if i < 0 then CHR ''-'' # str_nat (nat (- i)) else str_nat (nat i))"

text \<open>
  \<open>repr(s)\<close> of a string: single quotes, or double quotes when the string holds a single
  quote and no double quote; the quote and the backslash are escaped with a backslash,
  tab, newline and carriage return are written \<open>\t\<close>, \<open>\n\<close>, \<open>\r\<close>, and every other
  code point that is not printable is written \<open>\xhh\<close>.
\<close>

definition py_printable :: "char \<Rightarrow> bool" where
  "py_printable c =
     (let n = (of_char c :: nat) in (32 \<le> n \<and> n < 127) \<or> (161 \<le> n \<and> n \<noteq> 173))"

definition repr_char :: "char \<Rightarrow> char \<Rightarrow> string" where
  "repr_char q c =
     (if c = q \<or> c = CHR 0x5C then [CHR 0x5C, c]
      else if c = CHR 0x09 then [CHR 0x5C, CHR ''t'']
      else if c = CHR 0x0A then [CHR 0x5C, CHR ''n'']
      else if c = CHR 0x0D then [CHR 0x5C, CHR ''r'']
      else if py_printable c then [c]
      else [CHR 0x5C, CHR ''x'', digit_char ((of_char c :: nat) div 16),
            digit_char ((of_char c :: nat) mod 16)])"

definition repr_str :: "string \<Rightarrow> string" where
  "repr_str s =
     (let q = (if CHR 0x27 \<in> set s \<and> CHR 0x22 \<notin> set s then CHR 0x22 else CHR 0x27)
      in q # concat (map (repr_char q) s) @ [q])"

subsection \<open>The values json.loads returns\<close>

text \<open>
  \<open>json.loads\<close> returns \<open>None\<close>, a bool, an int, a float, a str, a list or a dict with
  string keys. The only operation the code applies to a float is \<open>str\<close>, so a float is
  kept as the text \<open>repr\<close> gives for it. A dict is the list of its items in insertion
  order; \<open>json.loads\<close> builds dicts whose keys are distinct.
\<close>

datatype json =
    JNull
  | JBool bool
  | JInt int
  | JFloat string
  | JStr string
  | JList "json list"
  | JDict "(string \<times> json) list"

fun py_repr :: "json \<Rightarrow> string" where
  "py_repr JNull = ''None''"
| "py_repr (JBool b) = (if b then ''True'' else ''False'')"
| "py_repr (JInt i) = str_int i"
| "py_repr (JFloat s) = s"
| "py_repr (JStr s) = repr_str s"
| "py_repr (JList xs) = ''['' @ join '', '' (map py_repr xs) @ '']''"
| "py_repr (JDict kvs) =
     ''{'' @ join '', '' (map (\<lambda>kv. repr_str (fst kv) @ '': '' @ py_repr (snd kv)) kvs) @ ''}''"

text \<open>\<open>str(x)\<close>: a string is itself, every other value is its \<open>repr\<close>.\<close>

definition py_str :: "json \<Rightarrow> string" where
  "py_str x = (case x of JStr s \<Rightarrow> s | _ \<Rightarrow> py_repr x)"

text \<open>\<open>len(x)\<close>: only a list, a dict and a string have a length.\<close>

definition py_len :: "json \<Rightarrow> exn + int" where
  "py_len x =
     (case x of
        JList xs \<Rightarrow> Inr (int (length xs))
      | JDict kvs \<Rightarrow> Inr (int (length kvs))
      | JStr s \<Rightarrow> Inr (int (length s))
      | _ \<Rightarrow> Inl TypeError)"

text \<open>\<open>x[i]\<close> for an int \<open>i\<close>: an element of a list, a character of a string; a dict of
  \<open>json.loads\<close> has no int key (KeyError); nothing else is subscriptable.\<close>

definition getitem_int :: "json \<Rightarrow> int \<Rightarrow> exn + json" where
  "getitem_int x i =
     (case x of
        JList xs \<Rightarrow> py_index xs i
      | JStr s \<Rightarrow> (case py_index s i of Inl e \<Rightarrow> Inl e | Inr c \<Rightarrow> Inr (JStr [c]))
      | JDict kvs \<Rightarrow> Inl KeyError
      | _ \<Rightarrow> Inl TypeError)"

text \<open>\<open>k in x\<close> for a string \<open>k\<close>: a key of a dict, an element of a list, a substring of
  a string; nothing else is iterable.\<close>

definition contains_str :: "string \<Rightarrow> json \<Rightarrow> exn + bool" where
  "contains_str k x =
     (case x of
        JDict kvs \<Rightarrow> Inr (k \<in> set (map fst kvs))
      | JList xs \<Rightarrow> Inr (JStr k \<in> set xs)
      | JStr s \<Rightarrow> Inr (str_contains k s)
      | _ \<Rightarrow> Inl TypeError)"

text \<open>\<open>x[k]\<close> for a string \<open>k\<close>: the value of a dict at \<open>k\<close>; a list and a string take
  int indices only.\<close>

definition getitem_str :: "json \<Rightarrow> string \<Rightarrow> exn + json" where
  "getitem_str x k =
     (case x of
        JDict kvs \<Rightarrow> (case map_of kvs k of None \<Rightarrow> Inl KeyError | Some v \<Rightarrow> Inr v)
      | _ \<Rightarrow> Inl TypeError)"

section \<open>Collaborators outside plugins.py\<close>

text \<open>
  The HTTP response of \<open>requests\<close>, as far as the plugins read it: the body as text, and
  what \<open>response.cookies.get(n)\<close> and \<open>response.headers.get(n)\<close> return for a name.
\<close>

record response =
  response_text :: string
  response_cookies :: "string \<Rightarrow> string option"
  response_headers :: "string \<Rightarrow> string option"

text \<open>An element of the parsed markup: its tag name and its attributes, as
  \<open>item.attrs.get\<close> reads them (an attribute value is taken to be a string).\<close>

record element =
  tag_name :: string
  attrs :: "string \<Rightarrow> string option"

text \<open>
  The library and helper functions the plugins call are parameters of the embedding:
  \<^item> \<open>re_search pattern text\<close> is \<open>re.search\<close>: an exception for a pattern that does not
    compile, \<open>None\<close> when no match exists, and otherwise \<open>groups()\<close> of the first match,
    the tuple of its capture groups (\<open>None\<close> for a group that took no part);
  \<^item> \<open>find_all text tag\<close> is \<open>BeautifulSoup(text, "html.parser").find_all(tag)\<close>, the
    elements named \<open>tag\<close> in document order;
  \<^item> \<open>match_tag\<close> and \<open>parse_json_filter\<close> are the helpers of \<open>raider.utils\<close>;
  \<^item> \<open>json_loads\<close> is \<open>json.loads\<close>.
\<close>

record lib =
  re_search :: "string \<Rightarrow> string \<Rightarrow> exn + string option list option"
  find_all :: "string \<Rightarrow> string \<Rightarrow> element list"
  match_tag :: "element \<Rightarrow> (string \<times> string) list \<Rightarrow> bool"
  json_loads :: "string \<Rightarrow> exn + json"
  parse_json_filter :: "string \<Rightarrow> string list"

section \<open>Plugin objects\<close>

text \<open>
  Plugins refer to each other and are mutated in place, so they live in a heap: a
  reference is an address, and the heap gives the object at each address.
\<close>

type_synonym ref = nat

text \<open>An argument of \<open>Combine\<close>: a string or a plugin.\<close>

datatype item = Str string | Plg ref

text \<open>
  The callables plugins.py stores in the \<open>function\<close> attribute. A bound method is bound
  to the plugin that holds it; a lambda that closes over another plugin carries its
  reference. \<open>F_None\<close> is \<open>function=None\<close>.
\<close>

datatype callable =
    F_None
  | F_extract_from_userdata
  | F_return_value
  | F_extract_regex
  | F_extract_html_tag
  | F_extract_json_from_response
  | F_extract_json_field
  | F_variable_lambda
  | F_cookie_extract_from_response
  | F_header_extract_from_response
  | F_self_value_lambda
  | F_from_plugin_lambda ref
  | F_bearerauth_lambda ref
  | F_process_value
  | F_concatenate_values

text \<open>The attributes a subclass adds to \<open>Plugin\<close>. \<open>Command\<close> and \<open>Prompt\<close> run a
  process and read the console; they are left out, and so is \<open>Header.basicauth\<close>.\<close>

datatype pyclass =
    Base
  | Regex string int
  | Html string "(string \<times> string) list" string
  | Json string
  | Variable
  | Cookie
  | Header
  | Alter "string \<Rightarrow> exn + string option"
  | Combine "item list"
  | Empty

record plugin =
  name :: string
  plugins :: "ref list"
  pvalue :: "string option"
  flags :: int
  pfunction :: callable
  cls :: pyclass

type_synonym heap = "ref \<Rightarrow> plugin"

text \<open>What a call passes to \<open>function\<close>: the user data, a response (or \<open>None\<close>), a string.\<close>

datatype arg =
    A_userdata "string \<Rightarrow> string option"
  | A_response "response option"
  | A_str string

definition NEEDS_USERDATA :: int where
  "NEEDS_USERDATA = 1"

definition NEEDS_RESPONSE :: int where
  "NEEDS_RESPONSE = 2"

definition DEPENDS_ON_OTHER_PLUGINS :: int where
  "DEPENDS_ON_OTHER_PLUGINS = 4"

definition needs_userdata :: "plugin \<Rightarrow> bool" where
  "needs_userdata p = ((flags p AND NEEDS_USERDATA) \<noteq> 0)"

definition needs_response :: "plugin \<Rightarrow> bool" where
  "needs_response p = ((flags p AND NEEDS_RESPONSE) \<noteq> 0)"

definition depends_on_other_plugins :: "plugin \<Rightarrow> bool" where
  "depends_on_other_plugins p = ((flags p AND DEPENDS_ON_OTHER_PLUGINS) \<noteq> 0)"

subsection \<open>Constructors\<close>

text \<open>\<open>Plugin.__init__\<close>: \<open>extract_from_userdata\<close> stands in for a missing function when
  NEEDS_USERDATA is set.\<close>

definition Plugin_init :: "string \<Rightarrow> callable \<Rightarrow> int \<Rightarrow> string option \<Rightarrow> plugin" where
  "Plugin_init nm f fl v =
     \<lparr>name = nm, plugins = [], pvalue = v, flags = fl,
      pfunction = (if (fl AND NEEDS_USERDATA) \<noteq> 0 \<and> f = F_None
                   then F_extract_from_userdata else f),
      cls = Base\<rparr>"

definition Regex_init :: "string \<Rightarrow> string \<Rightarrow> int \<Rightarrow> plugin" where
  "Regex_init nm rx ex =
     (Plugin_init nm F_extract_regex NEEDS_RESPONSE None)\<lparr>cls := Regex rx ex\<rparr>"

definition Html_init :: "string \<Rightarrow> string \<Rightarrow> (string \<times> string) list \<Rightarrow> string \<Rightarrow> plugin" where
  "Html_init nm tg ats ex =
     (Plugin_init nm F_extract_html_tag NEEDS_RESPONSE None)\<lparr>cls := Html tg ats ex\<rparr>"

definition Json_init :: "string \<Rightarrow> string \<Rightarrow> callable \<Rightarrow> int \<Rightarrow> plugin" where
  "Json_init nm ex f fl =
     (if f = F_None then Plugin_init nm F_extract_json_from_response fl None
      else Plugin_init nm f fl None)\<lparr>cls := Json ex\<rparr>"

definition Json_from_plugin :: "ref \<Rightarrow> string \<Rightarrow> string \<Rightarrow> plugin" where
  "Json_from_plugin plg nm ex =
     (Json_init nm ex F_None DEPENDS_ON_OTHER_PLUGINS)
       \<lparr>plugins := [plg], pfunction := F_extract_json_field\<rparr>"

definition Variable_init :: "string \<Rightarrow> plugin" where
  "Variable_init nm =
     (Plugin_init nm F_variable_lambda NEEDS_USERDATA None)\<lparr>cls := Variable\<rparr>"

definition Cookie_init :: "string \<Rightarrow> string option \<Rightarrow> callable \<Rightarrow> int \<Rightarrow> plugin" where
  "Cookie_init nm v f fl =
     (if f = F_None then
        (if (fl AND NEEDS_RESPONSE) \<noteq> 0
         then Plugin_init nm F_cookie_extract_from_response fl v
         else Plugin_init nm F_self_value_lambda fl v)
      else Plugin_init nm f fl v)\<lparr>cls := Cookie\<rparr>"

definition Cookie_from_plugin :: "heap \<Rightarrow> ref \<Rightarrow> string \<Rightarrow> plugin" where
  "Cookie_from_plugin h plg nm =
     Cookie_init nm (pvalue (h plg)) (F_from_plugin_lambda plg) 0"

definition Header_init :: "string \<Rightarrow> string option \<Rightarrow> callable \<Rightarrow> int \<Rightarrow> plugin" where
  "Header_init nm v f fl =
     (if f = F_None then
        (if (fl AND NEEDS_RESPONSE) \<noteq> 0
         then Plugin_init nm F_header_extract_from_response fl v
         else Plugin_init nm F_self_value_lambda fl v)
      else Plugin_init nm f fl v)\<lparr>cls := Header\<rparr>"

definition Header_bearerauth :: "ref \<Rightarrow> plugin" where
  "Header_bearerauth access_token =
     Header_init ''Authorization'' None (F_bearerauth_lambda access_token) 0"

definition Header_from_plugin :: "ref \<Rightarrow> string \<Rightarrow> plugin" where
  "Header_from_plugin plg nm = Header_init nm None (F_from_plugin_lambda plg) 0"

definition Alter_init :: "heap \<Rightarrow> ref \<Rightarrow> (string \<Rightarrow> exn + string option) \<Rightarrow> plugin" where
  "Alter_init h plg alter_function =
     (Plugin_init (name (h plg)) F_process_value DEPENDS_ON_OTHER_PLUGINS (pvalue (h plg)))
       \<lparr>plugins := [plg], cls := Alter alter_function\<rparr>"

definition Alter_prepend :: "heap \<Rightarrow> ref \<Rightarrow> string \<Rightarrow> plugin" where
  "Alter_prepend h plg s = Alter_init h plg (\<lambda>v. Inr (Some (s @ v)))"

definition Alter_append :: "heap \<Rightarrow> ref \<Rightarrow> string \<Rightarrow> plugin" where
  "Alter_append h plg s = Alter_init h plg (\<lambda>v. Inr (Some (v @ s)))"

text \<open>\<open>Combine.__init__\<close>: the name is the sum of the arguments' hashes, which differs from
  run to run; it is given here as \<open>nm\<close>.\<close>

fun plugins_of :: "item list \<Rightarrow> ref list" where
  "plugins_of [] = []"
| "plugins_of (Str s # rest) = plugins_of rest"
| "plugins_of (Plg r # rest) = r # plugins_of rest"

definition Combine_init :: "string \<Rightarrow> item list \<Rightarrow> plugin" where
  "Combine_init nm args =
     (Plugin_init nm F_concatenate_values DEPENDS_ON_OTHER_PLUGINS None)
       \<lparr>plugins := plugins_of args, cls := Combine args\<rparr>"

definition Empty_init :: "string \<Rightarrow> plugin" where
  "Empty_init nm = (Plugin_init nm F_return_value 0 None)\<lparr>cls := Empty\<rparr>"

section \<open>Methods\<close>

text \<open>
  A method takes the heap and the address of \<open>self\<close> and returns the value it returns,
  the heap it leaves and the log records it writes, or the exception it raises.
  (The heap and the log at a raise are not kept.)
\<close>

type_synonym 'a result = "exn + ('a \<times> heap \<times> log_record list)"

subsection \<open>Plugin.extract_from_userdata, Plugin.return_value\<close>

text \<open>\<open>data\<close> defaults to \<open>None\<close>. A dict is true when it is not empty. For a string,
  \<open>in\<close> is the substring test and \<open>data[self.name]\<close> raises TypeError; a response holds
  no string, so the test fails for it.\<close>

definition extract_from_userdata :: "heap \<Rightarrow> ref \<Rightarrow> arg option \<Rightarrow> string option result" where
  "extract_from_userdata h self data =
     (case data of
        Some (A_userdata d) \<Rightarrow>
          (if d \<noteq> Map.empty \<and> d (name (h self)) \<noteq> None
           then Inr (d (name (h self)), h(self := (h self)\<lparr>pvalue := d (name (h self))\<rparr>), [])
           else Inr (pvalue (h self), h, []))
      | Some (A_str s) \<Rightarrow>
          (if s \<noteq> [] \<and> str_contains (name (h self)) s then Inl TypeError
           else Inr (pvalue (h self), h, []))
      | _ \<Rightarrow> Inr (pvalue (h self), h, []))"

definition return_value :: "heap \<Rightarrow> ref \<Rightarrow> string option result" where
  "return_value h self = Inr (pvalue (h self), h, [])"

subsection \<open>Regex.extract_regex\<close>

definition extract_regex :: "lib \<Rightarrow> heap \<Rightarrow> ref \<Rightarrow> response \<Rightarrow> string option result" where
  "extract_regex L h self resp =
     (case cls (h self) of
        Regex rx ex \<Rightarrow>
          (case re_search L rx (response_text resp) of
             Inl e \<Rightarrow> Inl e
           | Inr (Some groups) \<Rightarrow>
               (case py_index groups ex of
                  Inl e \<Rightarrow> Inl e
                | Inr g \<Rightarrow>
                    Inr (g, h(self := (h self)\<lparr>pvalue := g\<rparr>),
                         [Log DEBUG ''Regex %s: %s'' [name (h self), str_opt g]]))
           | Inr None \<Rightarrow>
               Inr (pvalue (h self), h,
                    [Log WARNING ''Regex %s not found in the response body'' [name (h self)]]))
      | _ \<Rightarrow> Inl AttributeError)"

subsection \<open>Html.extract_html_tag\<close>

text \<open>The loop over \<open>matches\<close>: every element that \<open>match_tag\<close> accepts overwrites
  \<open>self.value\<close> with \<open>item.attrs.get(self.extract)\<close>.\<close>

fun html_loop ::
  "lib \<Rightarrow> (string \<times> string) list \<Rightarrow> string \<Rightarrow> string option \<Rightarrow> element list \<Rightarrow> string option"
where
  "html_loop L ats ex v [] = v"
| "html_loop L ats ex v (item # rest) =
     (if match_tag L item ats then html_loop L ats ex (attrs item ex) rest
      else html_loop L ats ex v rest)"

definition extract_html_tag :: "lib \<Rightarrow> heap \<Rightarrow> ref \<Rightarrow> response \<Rightarrow> string option result" where
  "extract_html_tag L h self resp =
     (case cls (h self) of
        Html tg ats ex \<Rightarrow>
          (let v = html_loop L ats ex (pvalue (h self)) (find_all L (response_text resp) tg)
           in Inr (v, h(self := (h self)\<lparr>pvalue := v\<rparr>),
                   [Log DEBUG ''Html filter %s: %s'' [name (h self), str_opt v]]))
      | _ \<Rightarrow> Inl AttributeError)"

subsection \<open>Json.extract_json_field\<close>

text \<open>
  The loop over the parsed filter. \<open>Inr (Some temp, _)\<close> is the end of the filter with
  \<open>is_valid\<close> still true; \<open>Inr (None, _)\<close> is the \<open>break\<close> with \<open>is_valid\<close> false, after
  the warning. The two warnings pass a tuple of two sentences as the message, and
  \<open>logging\<close> renders a message with \<open>str\<close>: the format is the tuple's \<open>repr\<close>.
\<close>

definition index_warning :: string where
  \<open>index_warning = ''("JSON array index doesn't exist.", "Cannot extract plugin's value.")''\<close>

definition key_warning :: string where
  \<open>key_warning =
     ''("Key '%s' not found in the response body.", "Cannot extract plugin's value.")''\<close>

fun json_loop :: "json \<Rightarrow> string list \<Rightarrow> exn + (json option \<times> log_record list)" where
  "json_loop temp [] = Inr (Some temp, [])"
| "json_loop temp (item # rest) =
     (if startswith item ''[''
      then (case py_int (py_strip ''[]'' item) of
              Inl e \<Rightarrow> Inl e
            | Inr index \<Rightarrow>
                (case py_len temp of
                   Inl e \<Rightarrow> Inl e
                 | Inr n \<Rightarrow>
                     if n > index
                     then (case getitem_int temp index of
                             Inl e \<Rightarrow> Inl e
                           | Inr t \<Rightarrow> json_loop t rest)
                     else Inr (None, [Log WARNING index_warning []])))
      else (case contains_str item temp of
              Inl e \<Rightarrow> Inl e
            | Inr b \<Rightarrow>
                if b
                then (case getitem_str temp item of
                        Inl e \<Rightarrow> Inl e
                      | Inr t \<Rightarrow> json_loop t rest)
                else Inr (None, [Log WARNING key_warning [item]])))"

definition extract_json_field :: "lib \<Rightarrow> heap \<Rightarrow> ref \<Rightarrow> string \<Rightarrow> string option result" where
  "extract_json_field L h self txt =
     (case json_loads L txt of
        Inl e \<Rightarrow> Inl e
      | Inr data \<Rightarrow>
          (case cls (h self) of
             Json ex \<Rightarrow>
               (case json_loop data (parse_json_filter L ex) of
                  Inl e \<Rightarrow> Inl e
                | Inr (Some temp, logs) \<Rightarrow>
                    Inr (Some (py_str temp),
                         h(self := (h self)\<lparr>pvalue := Some (py_str temp)\<rparr>),
                         logs @ [Log DEBUG ''Json filter %s: %s'' [name (h self), py_str temp]])
                | Inr (None, logs) \<Rightarrow>
                    Inr (None, h(self := (h self)\<lparr>pvalue := None\<rparr>), logs))
           | _ \<Rightarrow> Inl AttributeError))"

definition extract_json_from_response ::
  "lib \<Rightarrow> heap \<Rightarrow> ref \<Rightarrow> response \<Rightarrow> string option result"
where
  "extract_json_from_response L h self resp = extract_json_field L h self (response_text resp)"

subsection \<open>Cookie.extract_from_response, Header.extract_from_response\<close>

definition cookie_extract_from_response :: "heap \<Rightarrow> ref \<Rightarrow> response \<Rightarrow> string option result" where
  "cookie_extract_from_response h self resp = Inr (response_cookies resp (name (h self)), h, [])"

definition header_extract_from_response :: "heap \<Rightarrow> ref \<Rightarrow> response \<Rightarrow> string option result" where
  "header_extract_from_response h self resp = Inr (response_headers resp (name (h self)), h, [])"

subsection \<open>Alter.process_value\<close>

definition process_value :: "heap \<Rightarrow> ref \<Rightarrow> string option result" where
  "process_value h self =
     (case plugins (h self) of
        [] \<Rightarrow> Inl IndexError
      | src # _ \<Rightarrow>
          (case pvalue (h src) of
             None \<Rightarrow> Inr (pvalue (h self), h, [])
           | Some v \<Rightarrow>
               if v \<noteq> []
               then (case cls (h self) of
                       Alter alter_function \<Rightarrow>
                         (case alter_function v of
                            Inl e \<Rightarrow> Inl e
                          | Inr w \<Rightarrow> Inr (w, h(self := (h self)\<lparr>pvalue := w\<rparr>), []))
                     | _ \<Rightarrow> Inl AttributeError)
               else Inr (pvalue (h self), h, [])))"

subsection \<open>Combine.concatenate_values\<close>

fun concatenate_loop :: "heap \<Rightarrow> string \<Rightarrow> item list \<Rightarrow> string" where
  "concatenate_loop h combined [] = combined"
| "concatenate_loop h combined (Str s # rest) = concatenate_loop h (combined @ s) rest"
| "concatenate_loop h combined (Plg r # rest) =
     (case pvalue (h r) of
        None \<Rightarrow> concatenate_loop h combined rest
      | Some v \<Rightarrow>
          if v \<noteq> [] then concatenate_loop h (combined @ v) rest
          else concatenate_loop h combined rest)"

definition concatenate_values :: "heap \<Rightarrow> ref \<Rightarrow> string option result" where
  "concatenate_values h self =
     (case cls (h self) of
        Combine args \<Rightarrow> Inr (Some (concatenate_loop h [] args), h, [])
      | _ \<Rightarrow> Inl AttributeError)"

subsection \<open>Calling self.function\<close>

text \<open>
  \<open>self.function(*args)\<close>. A call with the wrong number of arguments raises TypeError.
  A method that reads \<open>response.text\<close>, \<open>response.cookies\<close> or \<open>response.headers\<close> raises
  AttributeError on \<open>None\<close>, a dict or a string; \<open>json.loads\<close> and \<open>data[self.name]\<close>
  raise TypeError on an argument of another type.
\<close>

definition as_response :: "arg list \<Rightarrow> exn + response" where
  "as_response args =
     (case args of
        [A_response (Some resp)] \<Rightarrow> Inr resp
      | [_] \<Rightarrow> Inl AttributeError
      | _ \<Rightarrow> Inl TypeError)"

definition no_args :: "arg list \<Rightarrow> string option result \<Rightarrow> string option result" where
  "no_args args res = (case args of [] \<Rightarrow> res | _ \<Rightarrow> Inl TypeError)"

definition call_function :: "lib \<Rightarrow> heap \<Rightarrow> ref \<Rightarrow> arg list \<Rightarrow> string option result" where
  "call_function L h self args =
     (case pfunction (h self) of
        F_None \<Rightarrow> Inl TypeError
      | F_extract_from_userdata \<Rightarrow>
          (case args of
             [] \<Rightarrow> extract_from_userdata h self None
           | [a] \<Rightarrow> extract_from_userdata h self (Some a)
           | _ \<Rightarrow> Inl TypeError)
      | F_return_value \<Rightarrow> no_args args (return_value h self)
      | F_extract_regex \<Rightarrow>
          (case as_response args of Inl e \<Rightarrow> Inl e | Inr resp \<Rightarrow> extract_regex L h self resp)
      | F_extract_html_tag \<Rightarrow>
          (case as_response args of Inl e \<Rightarrow> Inl e | Inr resp \<Rightarrow> extract_html_tag L h self resp)
      | F_extract_json_from_response \<Rightarrow>
          (case as_response args of
             Inl e \<Rightarrow> Inl e
           | Inr resp \<Rightarrow> extract_json_from_response L h self resp)
      | F_extract_json_field \<Rightarrow>
          (case args of
             [A_str txt] \<Rightarrow> extract_json_field L h self txt
           | _ \<Rightarrow> Inl TypeError)
      | F_variable_lambda \<Rightarrow>
          (case args of
             [A_userdata d] \<Rightarrow>
               (case d (name (h self)) of
                  None \<Rightarrow> Inl KeyError
                | Some v \<Rightarrow> Inr (Some v, h, []))
           | _ \<Rightarrow> Inl TypeError)
      | F_cookie_extract_from_response \<Rightarrow>
          (case as_response args of
             Inl e \<Rightarrow> Inl e
           | Inr resp \<Rightarrow> cookie_extract_from_response h self resp)
      | F_header_extract_from_response \<Rightarrow>
          (case as_response args of
             Inl e \<Rightarrow> Inl e
           | Inr resp \<Rightarrow> header_extract_from_response h self resp)
      | F_self_value_lambda \<Rightarrow> no_args args (Inr (pvalue (h self), h, []))
      | F_from_plugin_lambda plg \<Rightarrow>
          no_args args (Inr (if truthy (pvalue (h plg)) then pvalue (h plg) else None, h, []))
      | F_bearerauth_lambda access_token \<Rightarrow>
          no_args args
            (Inr (case pvalue (h access_token) of
                    None \<Rightarrow> None
                  | Some v \<Rightarrow> if v \<noteq> [] then Some (''Bearer '' @ v) else None,
                  h, []))
      | F_process_value \<Rightarrow> no_args args (process_value h self)
      | F_concatenate_values \<Rightarrow> no_args args (concatenate_values h self))"

subsection \<open>Plugin.get_value, Plugin.extract_value_from_response\<close>

definition get_value :: "lib \<Rightarrow> heap \<Rightarrow> ref \<Rightarrow> (string \<Rightarrow> string option) \<Rightarrow> string option result" where
  "get_value L h self userdata =
     (if \<not> needs_response (h self)
      then (case (if needs_userdata (h self)
                  then call_function L h self [A_userdata userdata]
                  else call_function L h self []) of
              Inl e \<Rightarrow> Inl e
            | Inr (v, h', logs) \<Rightarrow> Inr (v, h'(self := (h' self)\<lparr>pvalue := v\<rparr>), logs))
      else Inr (pvalue (h self), h, []))"

definition extract_value_from_response :: "lib \<Rightarrow> heap \<Rightarrow> ref \<Rightarrow> response option \<Rightarrow> unit result" where
  "extract_value_from_response L h self resp =
     (case call_function L h self [A_response resp] of
        Inl e \<Rightarrow> Inl e
      | Inr (output, h', logs) \<Rightarrow>
          if truthy output
          then Inr ((), h'(self := (h' self)\<lparr>pvalue := output\<rparr>),
                    logs @ [Log DEBUG ''Found ouput %s = %s'' [name (h' self), str_opt output]])
          else Inr ((), h',
                    logs @ [Log WARNING ''Couldn't extract output: %s'' [name (h' self)]]))"

section \<open>The specification's notions\<close>

text \<open>
  Section 4.2 of the specification: a path is a sequence of steps, each a mapping key or
  a zero-based sequence index; a key step descends into an object that has the key, an
  index step into an array that has the index. \<open>spec_lookup\<close> is the substructure a
  path addresses, \<open>None\<close> when a step finds nothing.
\<close>

datatype step = Key string | Index nat

fun spec_lookup :: "json \<Rightarrow> step list \<Rightarrow> json option" where
  "spec_lookup v [] = Some v"
| "spec_lookup (JDict kvs) (Key k # rest) =
     (case map_of kvs k of None \<Rightarrow> None | Some v \<Rightarrow> spec_lookup v rest)"
| "spec_lookup (JList xs) (Index n # rest) =
     (if n < length xs then spec_lookup (xs ! n) rest else None)"
| "spec_lookup v (s # rest) = None"

text \<open>The step an item of the parsed filter stands for, as \<open>extract_json_field\<close> reads
  it: an item that starts with a bracket is the index between the brackets, any other
  item is a key.\<close>

definition step_of_item :: "string \<Rightarrow> step option" where
  "step_of_item item =
     (if startswith item ''[''
      then (case py_int (py_strip ''[]'' item) of
              Inl e \<Rightarrow> None
            | Inr i \<Rightarrow> if 0 \<le> i then Some (Index (nat i)) else None)
      else Some (Key item))"

text \<open>A step that finds nothing: a key that the current object lacks, an index at or
  beyond the length of the current array.\<close>

fun step_not_found :: "json \<Rightarrow> step \<Rightarrow> bool" where
  "step_not_found (JDict kvs) (Key k) = (map_of kvs k = None)"
| "step_not_found (JList xs) (Index n) = (length xs \<le> n)"
| "step_not_found v s = False"

text \<open>The textual JSON form of a value (the layout of \<open>json.dumps\<close>): \<open>null\<close>, \<open>true\<close>,
  \<open>false\<close>, numbers, strings in double quotes, arrays and objects.\<close>

definition json_escape :: "char \<Rightarrow> string" where
  "json_escape c =
     (if c = CHR 0x22 \<or> c = CHR 0x5C then [CHR 0x5C, c]
      else if c = CHR 0x0A then [CHR 0x5C, CHR ''n'']
      else if c = CHR 0x0D then [CHR 0x5C, CHR ''r'']
      else if c = CHR 0x09 then [CHR 0x5C, CHR ''t'']
      else if (of_char c :: nat) < 32 \<or> 127 \<le> (of_char c :: nat)
      then [CHR 0x5C, CHR ''u'', CHR ''0'', CHR ''0'',
            digit_char ((of_char c :: nat) div 16), digit_char ((of_char c :: nat) mod 16)]
      else [c])"

definition json_quote :: "string \<Rightarrow> string" where
  "json_quote s = CHR 0x22 # concat (map json_escape s) @ [CHR 0x22]"

fun json_text :: "json \<Rightarrow> string" where
  "json_text JNull = ''null''"
| "json_text (JBool b) = (if b then ''true'' else ''false'')"
| "json_text (JInt i) = str_int i"
| "json_text (JFloat s) = s"
| "json_text (JStr s) = json_quote s"
| "json_text (JList xs) = ''['' @ join '', '' (map json_text xs) @ '']''"
| "json_text (JDict kvs) =
     ''{'' @ join '', '' (map (\<lambda>kv. json_quote (fst kv) @ '': '' @ json_text (snd kv)) kvs) @ ''}''"

text \<open>What an argument of \<open>Combine\<close> contributes according to section 4.9: a literal
  itself, a node its current value when present, an absent-valued node nothing.\<close>

fun spec_contribution :: "heap \<Rightarrow> item \<Rightarrow> string" where
  "spec_contribution h (Str s) = s"
| "spec_contribution h (Plg r) = (case pvalue (h r) of None \<Rightarrow> [] | Some v \<Rightarrow> v)"

text \<open>
  A path that references a missing key or an index out of range: its steps find their
  key or index one after the other until one step finds nothing. \<open>failing_step\<close> is
  that step, \<open>None\<close> when the path has no such step.
\<close>

fun failing_step :: "json \<Rightarrow> string list \<Rightarrow> step option" where
  "failing_step temp [] = None"
| "failing_step temp (item # rest) =
     (case step_of_item item of
        None \<Rightarrow> None
      | Some s \<Rightarrow>
          if step_not_found temp s then Some s
          else (case spec_lookup temp [s] of
                  None \<Rightarrow> None
                | Some t \<Rightarrow> failing_step t rest))"

text \<open>The warning \<open>extract_json_field\<close> logs for a step that finds nothing.\<close>

fun json_warning :: "step \<Rightarrow> log_record" where
  "json_warning (Key k) = Log WARNING key_warning [k]"
| "json_warning (Index n) = Log WARNING index_warning []"

text \<open>
  The not-found conditions of section 7 of the specification for a plugin that reads the
  response: the pattern has no match, no element satisfies the constraints, the path
  references a missing key or index, the cookie or the header is absent.
\<close>

definition not_found :: "lib \<Rightarrow> heap \<Rightarrow> ref \<Rightarrow> response \<Rightarrow> bool" where
  "not_found L h self resp =
     (case pfunction (h self) of
        F_extract_regex \<Rightarrow>
          (case cls (h self) of
             Regex rx ex \<Rightarrow> re_search L rx (response_text resp) = Inr None
           | _ \<Rightarrow> False)
      | F_extract_html_tag \<Rightarrow>
          (case cls (h self) of
             Html tg ats ex \<Rightarrow>
               filter (\<lambda>e. match_tag L e ats) (find_all L (response_text resp) tg) = []
           | _ \<Rightarrow> False)
      | F_extract_json_from_response \<Rightarrow>
          (case cls (h self) of
             Json ex \<Rightarrow>
               (case json_loads L (response_text resp) of
                  Inl e \<Rightarrow> False
                | Inr data \<Rightarrow> failing_step data (parse_json_filter L ex) \<noteq> None)
           | _ \<Rightarrow> False)
      | F_cookie_extract_from_response \<Rightarrow> response_cookies resp (name (h self)) = None
      | F_header_extract_from_response \<Rightarrow> response_headers resp (name (h self)) = None
      | _ \<Rightarrow> False)"

section \<open>Outcomes of a call\<close>

text \<open>What a call returned or raised, and the value a plugin holds after the call.\<close>

definition returned :: "'a result \<Rightarrow> exn + 'a" where
  "returned res = (case res of Inl e \<Rightarrow> Inl e | Inr (v, h, logs) \<Rightarrow> Inr v)"

definition value_after :: "'a result \<Rightarrow> ref \<Rightarrow> exn + string option" where
  "value_after res r = (case res of Inl e \<Rightarrow> Inl e | Inr (v, h, logs) \<Rightarrow> Inr (pvalue (h r)))"

section \<open>Example inputs\<close>

text \<open>
  The results of the library and of the \<open>raider.utils\<close> helpers on the texts that the
  examples below use. \<open>ex_re_search\<close>, \<open>ex_find_all\<close>, \<open>ex_json_loads\<close> and
  \<open>ex_parse_json_filter\<close> are the real function's result on the inputs listed and a
  failure (no match, no element, a decode error, no item) elsewhere; the pattern
  \<open>token=[a-z]+\<close> has no capture group, so its match has the empty \<open>groups()\<close>.
  \<open>ex_match_tag\<close>
  compares an attribute's value with the pattern letter by letter; for the constraint
  \<open>name = csrf\<close> and the elements listed that is what the regular expression decides.
\<close>

definition ex_re_search :: "string \<Rightarrow> string \<Rightarrow> exn + string option list option" where
  "ex_re_search pattern txt =
     (if pattern = ''token=([a-z]+)'' \<and> txt = ''token=abc'' then Inr (Some [Some ''abc''])
      else if pattern = ''token=[a-z]+'' \<and> txt = ''token=abc'' then Inr (Some [])
      else Inr None)"

definition ex_find_all :: "string \<Rightarrow> string \<Rightarrow> element list" where
  "ex_find_all txt tg =
     (if tg = ''input'' \<and> txt = ''<input name=csrf value=t1><input name=csrf value=t2>''
      then [\<lparr>tag_name = ''input'', attrs = [''name'' \<mapsto> ''csrf'', ''value'' \<mapsto> ''t1'']\<rparr>,
            \<lparr>tag_name = ''input'', attrs = [''name'' \<mapsto> ''csrf'', ''value'' \<mapsto> ''t2'']\<rparr>]
      else [])"

definition ex_match_tag :: "element \<Rightarrow> (string \<times> string) list \<Rightarrow> bool" where
  "ex_match_tag item ats = list_all (\<lambda>kv. attrs item (fst kv) = Some (snd kv)) ats"

definition ex_json_loads :: "string \<Rightarrow> exn + json" where
  \<open>ex_json_loads txt =
     (if txt = ''{"a": {"b": "c"}, "n": [1, 2]}''
      then Inr (JDict [(''a'', JDict [(''b'', JStr ''c'')]), (''n'', JList [JInt 1, JInt 2])])
      else Inl JSONDecodeError)\<close>

definition ex_parse_json_filter :: "string \<Rightarrow> string list" where
  "ex_parse_json_filter raw =
     (if raw = ''a'' then [''a'']
      else if raw = ''a.x'' then [''a'', ''x'']
      else if raw = ''n[1]'' then [''n'', ''[1]'']
      else if raw = ''n[5]'' then [''n'', ''[5]'']
      else if raw = ''n[1].x'' then [''n'', ''[1]'', ''x'']
      else [])"

definition ex_lib :: lib where
  "ex_lib =
     \<lparr>re_search = ex_re_search, find_all = ex_find_all, match_tag = ex_match_tag,
      json_loads = ex_json_loads, parse_json_filter = ex_parse_json_filter\<rparr>"

definition ex_response :: "string \<Rightarrow> response" where
  "ex_response txt =
     \<lparr>response_text = txt, response_cookies = Map.empty,
      response_headers = [''X-Token'' \<mapsto> [], ''Server'' \<mapsto> ''nginx'']\<rparr>"

text \<open>A heap whose every address holds an \<open>Empty\<close> plugin; the examples allocate their
  plugins in it.\<close>

definition ex_heap :: heap where
  "ex_heap = (\<lambda>r. Empty_init ''unused'')"

section \<open>Properties\<close>

subsection \<open>Auxiliary facts\<close>

lemma heap_same_value: "h(r := (h r)\<lparr>pvalue := pvalue (h r)\<rparr>) = (h::heap)"
  by simp

lemma concatenate_loop_eq:
  "concatenate_loop h combined args = combined @ concat (map (spec_contribution h) args)"
proof (induction args arbitrary: combined)
  case Nil
  show ?case by simp
next
  case (Cons a args)
  show ?case
  proof (cases a)
    case (Str s)
    with Cons show ?thesis by simp
  next
    case (Plg r)
    with Cons show ?thesis by (cases "pvalue (h r)") auto
  qed
qed

lemma Combine_init_fields:
  "pfunction (Combine_init nm args) = F_concatenate_values"
  "flags (Combine_init nm args) = 4"
  "cls (Combine_init nm args) = Combine args"
  by (simp_all add: Combine_init_def Plugin_init_def DEPENDS_ON_OTHER_PLUGINS_def
      NEEDS_USERDATA_def)

lemma Variable_init_fields:
  "pfunction (Variable_init nm) = F_variable_lambda"
  "flags (Variable_init nm) = 1"
  "name (Variable_init nm) = nm"
  by (simp_all add: Variable_init_def Plugin_init_def NEEDS_USERDATA_def)

subsection \<open>Plugin.get_value on a plugin that needs the response\<close>

text \<open>
  Claim C10. For a plugin whose NEEDS_RESPONSE flag is set, \<open>get_value\<close> returns the
  plugin's current value, whatever the user data. It raises nothing, writes no log
  record and leaves the heap as it was, so no field of any plugin changes. The result
  does not depend on \<open>pfunction\<close>: the function is not called, even one whose call would
  raise.
\<close>

theorem get_value_needs_response:
  "needs_response (h self) \<Longrightarrow> get_value L h self userdata = Inr (pvalue (h self), h, [])"
  by (simp add: get_value_def)

theorem get_value_needs_response_witness:
  "needs_response
     ((ex_heap(1 := (Regex_init ''csrf'' ''token=([a-z]+)'' 0)\<lparr>pvalue := Some ''abc''\<rparr>)) 1)
   \<and> get_value ex_lib
         (ex_heap(1 := (Regex_init ''csrf'' ''token=([a-z]+)'' 0)\<lparr>pvalue := Some ''abc''\<rparr>)) 1
         [''username'' \<mapsto> ''admin'']
       = Inr (Some ''abc'',
              ex_heap(1 := (Regex_init ''csrf'' ''token=([a-z]+)'' 0)\<lparr>pvalue := Some ''abc''\<rparr>),
              [])"
  using get_value_needs_response
    [where h = "ex_heap(1 := (Regex_init ''csrf'' ''token=([a-z]+)'' 0)\<lparr>pvalue := Some ''abc''\<rparr>)"
       and self = 1 and L = ex_lib and userdata = "[''username'' \<mapsto> ''admin'']"]
  by (simp add: needs_response_def Regex_init_def Plugin_init_def NEEDS_RESPONSE_def)

subsection \<open>Combine\<close>

text \<open>
  Claim C7. Resolving a \<open>Combine\<close> plugin returns, and stores as its value, the
  concatenation of what its arguments contribute in order: a literal string itself, a
  plugin its current value, a plugin without a value nothing. No exception is raised.
  The instance below is the example of the specification: \<open>"Bearer "\<close> combined with a plugin
  whose value is \<open>"abc123"\<close> gives \<open>"Bearer abc123"\<close>, and \<open>"Bearer "\<close> when the plugin has
  no value.
\<close>

theorem combine_get_value:
  assumes "h self = (Combine_init nm args)\<lparr>pvalue := old\<rparr>"
  shows "get_value L h self userdata =
           Inr (Some (concat (map (spec_contribution h) args)),
                h(self := (h self)\<lparr>pvalue := Some (concat (map (spec_contribution h) args))\<rparr>),
                [])"
proof -
  have f: "pfunction (h self) = F_concatenate_values" "cls (h self) = Combine args"
    and nr: "\<not> needs_response (h self)" and nu: "\<not> needs_userdata (h self)"
    using assms
    by (simp_all add: Combine_init_fields needs_response_def needs_userdata_def
        NEEDS_RESPONSE_def NEEDS_USERDATA_def)
  have "call_function L h self [] =
          Inr (Some (concat (map (spec_contribution h) args)), h, [])"
    using f by (simp add: call_function_def no_args_def concatenate_values_def concatenate_loop_eq)
  then show ?thesis
    using nr nu by (simp add: get_value_def)
qed

theorem combine_get_value_witness:
  "returned (get_value ex_lib
      (ex_heap(1 := (Empty_init ''token'')\<lparr>pvalue := Some ''abc123''\<rparr>,
               2 := Combine_init ''combined'' [Str ''Bearer '', Plg 1]))
      2 Map.empty) = Inr (Some ''Bearer abc123'')
   \<and> returned (get_value ex_lib
      (ex_heap(1 := Empty_init ''token'',
               2 := Combine_init ''combined'' [Str ''Bearer '', Plg 1]))
      2 Map.empty) = Inr (Some ''Bearer '')"
  using combine_get_value
    [where h = "ex_heap(1 := (Empty_init ''token'')\<lparr>pvalue := Some ''abc123''\<rparr>,
               2 := Combine_init ''combined'' [Str ''Bearer '', Plg 1])"
       and self = 2 and nm = "''combined''" and args = "[Str ''Bearer '', Plg 1]" and old = None
       and L = ex_lib and userdata = Map.empty]
    combine_get_value
    [where h = "ex_heap(1 := Empty_init ''token'',
               2 := Combine_init ''combined'' [Str ''Bearer '', Plg 1])"
       and self = 2 and nm = "''combined''" and args = "[Str ''Bearer '', Plg 1]" and old = None
       and L = ex_lib and userdata = Map.empty]
  by (simp add: returned_def Combine_init_def Plugin_init_def Empty_init_def)

subsection \<open>Variable\<close>

text \<open>
  Claim C4. The function of a \<open>Variable\<close> is \<open>lambda data: data[self.name]\<close>. When the
  user data has no entry for the plugin's name, \<open>get_value\<close> raises KeyError; it does not
  return \<open>None\<close>. (\<open>Plugin.extract_from_userdata\<close> tests \<open>self.name in data\<close> first and
  returns the plugin's value; \<open>Variable\<close> does not use it.)
\<close>

theorem variable_missing_key_raises:
  "userdata nm = None \<Longrightarrow> get_value L (h(a := Variable_init nm)) a userdata = Inl KeyError"
  by (simp add: get_value_def call_function_def Variable_init_fields needs_response_def
      needs_userdata_def NEEDS_RESPONSE_def NEEDS_USERDATA_def)

theorem variable_missing_key_raises_witness:
  "[''password'' \<mapsto> ''secret''] ''username'' = None
   \<and> get_value ex_lib (ex_heap(1 := Variable_init ''username'')) 1 [''password'' \<mapsto> ''secret'']
       = Inl KeyError"
  using variable_missing_key_raises
    [where userdata = "[''password'' \<mapsto> ''secret'']" and nm = "''username''" and L = ex_lib
       and h = ex_heap and a = 1]
  by simp

lemma variable_present_key:
  "userdata nm = Some v \<Longrightarrow>
   returned (get_value L (h(a := Variable_init nm)) a userdata) = Inr (Some v)"
  by (simp add: get_value_def call_function_def Variable_init_fields needs_response_def
      needs_userdata_def NEEDS_RESPONSE_def NEEDS_USERDATA_def returned_def)

lemma extract_from_userdata_missing_key:
  "userdata (name (h self)) = None \<Longrightarrow>
   extract_from_userdata h self (Some (A_userdata userdata)) = Inr (pvalue (h self), h, [])"
  by (simp add: extract_from_userdata_def)

subsection \<open>Header.from_plugin, Cookie.from_plugin\<close>

lemma from_plugin_fields:
  "pfunction (Header_from_plugin n nm) = F_from_plugin_lambda n"
  "flags (Header_from_plugin n nm) = 0"
  "pfunction (Cookie_from_plugin hc n nm) = F_from_plugin_lambda n"
  "flags (Cookie_from_plugin hc n nm) = 0"
  by (simp_all add: Header_from_plugin_def Header_init_def Cookie_from_plugin_def
      Cookie_init_def Plugin_init_def NEEDS_USERDATA_def)

text \<open>
  Claim C9, as amended. The function of a header or cookie built by \<open>from_plugin\<close> is
  \<open>lambda: plugin.value if plugin.value else None\<close>: it reads the source plugin when it
  is called. In any later heap, resolving the artifact returns (and stores) the source's
  current value when that value is a non-empty string, and \<open>None\<close> when the source's
  value is \<open>None\<close> or the empty string. The value the artifact held before (\<open>old\<close>, for
  a cookie the source's value at construction) plays no part.
\<close>

theorem from_plugin_get_value:
  assumes "h a = (Header_from_plugin n nm)\<lparr>pvalue := old\<rparr>
           \<or> h a = (Cookie_from_plugin hc n nm)\<lparr>pvalue := old\<rparr>"
  shows "get_value L h a userdata =
           Inr (if truthy (pvalue (h n)) then pvalue (h n) else None,
                h(a := (h a)\<lparr>pvalue := (if truthy (pvalue (h n)) then pvalue (h n) else None)\<rparr>),
                [])"
proof -
  have f: "pfunction (h a) = F_from_plugin_lambda n" and fl: "flags (h a) = 0"
    using assms by (auto simp: from_plugin_fields)
  have "call_function L h a [] =
          Inr (if truthy (pvalue (h n)) then pvalue (h n) else None, h, [])"
    using f by (simp add: call_function_def no_args_def)
  then show ?thesis
    using fl by (simp add: get_value_def needs_response_def needs_userdata_def)
qed

theorem from_plugin_get_value_witness:
  "returned (get_value ex_lib
      (ex_heap(1 := (Empty_init ''token'')\<lparr>pvalue := Some ''new''\<rparr>,
               2 := Header_from_plugin 1 ''Auth''))
      2 Map.empty) = Inr (Some ''new'')
   \<and> returned (get_value ex_lib
      (ex_heap(1 := (Empty_init ''token'')\<lparr>pvalue := Some ''new''\<rparr>,
               2 := Cookie_from_plugin (ex_heap(1 := (Empty_init ''token'')\<lparr>pvalue := Some ''old''\<rparr>)) 1 ''sid''))
      2 Map.empty) = Inr (Some ''new'')"
  using from_plugin_get_value
    [where h = "ex_heap(1 := (Empty_init ''token'')\<lparr>pvalue := Some ''new''\<rparr>,
               2 := Header_from_plugin 1 ''Auth'')"
       and a = 2 and n = 1 and nm = "''Auth''" and old = None and L = ex_lib
       and userdata = Map.empty]
    from_plugin_get_value
    [where h = "ex_heap(1 := (Empty_init ''token'')\<lparr>pvalue := Some ''new''\<rparr>,
               2 := Cookie_from_plugin (ex_heap(1 := (Empty_init ''token'')\<lparr>pvalue := Some ''old''\<rparr>)) 1 ''sid'')"
       and a = 2 and n = 1 and nm = "''sid''" and old = "Some ''old''" and L = ex_lib
       and hc = "ex_heap(1 := (Empty_init ''token'')\<lparr>pvalue := Some ''old''\<rparr>)"
       and userdata = Map.empty]
  by (simp add: returned_def truthy_def Header_from_plugin_def Header_init_def
      Cookie_from_plugin_def Cookie_init_def Plugin_init_def Empty_init_def)

text \<open>
  Claim C9 as stated fails when the source's current value is the empty string: the
  source has the value \<open>""\<close> and the header resolves to \<open>None\<close>.
\<close>

theorem from_plugin_empty_value_counterexample:
  "pvalue ((ex_heap(1 := (Empty_init ''token'')\<lparr>pvalue := Some ''''\<rparr>,
                    2 := Header_from_plugin 1 ''Auth'')) 1) = Some ''''
   \<and> returned (get_value ex_lib
        (ex_heap(1 := (Empty_init ''token'')\<lparr>pvalue := Some ''''\<rparr>,
                 2 := Header_from_plugin 1 ''Auth''))
        2 Map.empty) = Inr None"
  by (simp add: returned_def get_value_def call_function_def no_args_def truthy_def
      needs_response_def needs_userdata_def Header_from_plugin_def Header_init_def
      Plugin_init_def Empty_init_def NEEDS_USERDATA_def)

subsection \<open>Alter\<close>

lemma Alter_init_fields:
  "pfunction (Alter_init hc src f) = F_process_value"
  "flags (Alter_init hc src f) = 4"
  "plugins (Alter_init hc src f) = [src]"
  "cls (Alter_init hc src f) = Alter f"
  by (simp_all add: Alter_init_def Plugin_init_def DEPENDS_ON_OTHER_PLUGINS_def
      NEEDS_USERDATA_def)

text \<open>
  Claim C8, as amended. \<open>process_value\<close> tests \<open>if self.plugins[0].value\<close>. When the
  source's value is a non-empty string, resolution calls the transform on it and stores
  and returns its result (an exception of the transform propagates). When the source's
  value is \<open>None\<close> or the empty string, the transform is not called: the result is the
  same for every transform \<open>g\<close> in its place, also one that raises. In that case an
  \<open>Alter\<close> plugin whose value is absent stays absent, and the heap is unchanged. The
  instance below: \<open>Alter.prepend(node, "X-")\<close> with the node's value \<open>"token"\<close> gives
  \<open>"X-token"\<close>, and a transform that always raises is harmless when the source has no
  value.
\<close>

theorem alter_get_value:
  assumes "h self = (Alter_init hc src f)\<lparr>pvalue := old\<rparr>"
  shows "(truthy (pvalue (h src)) \<longrightarrow>
            get_value L h self userdata =
              (case f (the (pvalue (h src))) of
                 Inl e \<Rightarrow> Inl e
               | Inr w \<Rightarrow> Inr (w, h(self := (h self)\<lparr>pvalue := w\<rparr>), [])))
         \<and> (\<not> truthy (pvalue (h src)) \<longrightarrow>
            returned (get_value L h self userdata) =
              returned (get_value L (h(self := (h self)\<lparr>cls := Alter g\<rparr>)) self userdata))
         \<and> (\<not> truthy (pvalue (h src)) \<and> old = None \<longrightarrow>
            get_value L h self userdata = Inr (None, h, []))"
proof -
  have f: "pfunction (h self) = F_process_value" "plugins (h self) = [src]"
      "cls (h self) = Alter f" "pvalue (h self) = old"
    and nr: "\<not> needs_response (h self)" and nu: "\<not> needs_userdata (h self)"
    using assms
    by (simp_all add: Alter_init_fields needs_response_def needs_userdata_def
        NEEDS_RESPONSE_def NEEDS_USERDATA_def)
  have same: "h(self := (h self)\<lparr>pvalue := old\<rparr>) = h"
    using f(4) heap_same_value [of h self] by simp
  have c: "call_function L h self [] =
          (if truthy (pvalue (h src))
            then (case f (the (pvalue (h src))) of
                    Inl e \<Rightarrow> Inl e
                  | Inr w \<Rightarrow> Inr (w, h(self := (h self)\<lparr>pvalue := w\<rparr>), []))
            else Inr (old, h, []))"
    using f
    by (simp add: call_function_def no_args_def process_value_def truthy_def
        split: option.splits)
  have g: "get_value L h self userdata =
          (if truthy (pvalue (h src))
            then (case f (the (pvalue (h src))) of
                    Inl e \<Rightarrow> Inl e
                  | Inr w \<Rightarrow> Inr (w, h(self := (h self)\<lparr>pvalue := w\<rparr>), []))
            else Inr (old, h, []))"
    using c nr nu same by (simp add: get_value_def split: sum.splits)
  have other: "\<not> truthy (pvalue (h src)) \<Longrightarrow>
      returned (get_value L (h(self := (h self)\<lparr>cls := Alter g\<rparr>)) self userdata) = Inr old"
    using f nr nu
    by (cases "src = self")
      (auto simp: returned_def get_value_def call_function_def no_args_def process_value_def
        truthy_def needs_response_def needs_userdata_def split: option.splits)
  show ?thesis
    using g other by (simp add: returned_def)
qed

theorem alter_get_value_witness:
  "returned (get_value ex_lib
      (ex_heap(1 := (Empty_init ''token'')\<lparr>pvalue := Some ''token''\<rparr>,
               2 := Alter_prepend (ex_heap(1 := Empty_init ''token'')) 1 ''X-''))
      2 Map.empty) = Inr (Some ''X-token'')
   \<and> get_value ex_lib
      (ex_heap(1 := Empty_init ''token'',
               2 := Alter_init (ex_heap(1 := Empty_init ''token'')) 1 (\<lambda>v. Inl ValueError)))
      2 Map.empty
     = Inr (None,
            ex_heap(1 := Empty_init ''token'',
               2 := Alter_init (ex_heap(1 := Empty_init ''token'')) 1 (\<lambda>v. Inl ValueError)),
            [])
   \<and> returned (get_value ex_lib
      (ex_heap(1 := Empty_init ''token'',
               2 := Alter_init (ex_heap(1 := Empty_init ''token'')) 1 (\<lambda>v. Inl ValueError)))
      2 Map.empty)
     = returned (get_value ex_lib
      (ex_heap(1 := Empty_init ''token'',
               2 := Alter_prepend (ex_heap(1 := Empty_init ''token'')) 1 ''X-''))
      2 Map.empty)"
proof -
  have a: "returned (get_value ex_lib
      (ex_heap(1 := (Empty_init ''token'')\<lparr>pvalue := Some ''token''\<rparr>,
               2 := Alter_prepend (ex_heap(1 := Empty_init ''token'')) 1 ''X-''))
      2 Map.empty) = Inr (Some ''X-token'')"
    using alter_get_value
      [where h = "ex_heap(1 := (Empty_init ''token'')\<lparr>pvalue := Some ''token''\<rparr>,
               2 := Alter_prepend (ex_heap(1 := Empty_init ''token'')) 1 ''X-'')"
         and self = 2 and src = 1 and hc = "ex_heap(1 := Empty_init ''token'')"
         and f = "\<lambda>v. Inr (Some (''X-'' @ v))" and old = None and L = ex_lib
         and userdata = Map.empty, THEN conjunct1]
    by (simp add: returned_def truthy_def Alter_prepend_def Alter_init_def Plugin_init_def
        Empty_init_def)
  have u: "(Alter_init (ex_heap(1 := Empty_init ''token'')) 1 (\<lambda>v. Inl ValueError))
             \<lparr>cls := Alter (\<lambda>v. Inr (Some (''X-'' @ v)))\<rparr>
           = Alter_prepend (ex_heap(1 := Empty_init ''token'')) 1 ''X-''"
    by (simp add: Alter_prepend_def Alter_init_def)
  have b: "returned (get_value ex_lib
      (ex_heap(1 := Empty_init ''token'',
               2 := Alter_init (ex_heap(1 := Empty_init ''token'')) 1 (\<lambda>v. Inl ValueError)))
      2 Map.empty)
     = returned (get_value ex_lib
      (ex_heap(1 := Empty_init ''token'',
               2 := Alter_prepend (ex_heap(1 := Empty_init ''token'')) 1 ''X-''))
      2 Map.empty)"
    using u alter_get_value
      [where h = "ex_heap(1 := Empty_init ''token'',
               2 := Alter_init (ex_heap(1 := Empty_init ''token'')) 1 (\<lambda>v. Inl ValueError))"
         and self = 2 and src = 1 and hc = "ex_heap(1 := Empty_init ''token'')"
         and f = "\<lambda>v. Inl ValueError" and old = None and L = ex_lib
         and g = "\<lambda>v. Inr (Some (''X-'' @ v))"
         and userdata = Map.empty, THEN conjunct2, THEN conjunct1]
    by (simp add: truthy_def Alter_init_def Plugin_init_def Empty_init_def)
  have c: "get_value ex_lib
      (ex_heap(1 := Empty_init ''token'',
               2 := Alter_init (ex_heap(1 := Empty_init ''token'')) 1 (\<lambda>v. Inl ValueError)))
      2 Map.empty
     = Inr (None,
            ex_heap(1 := Empty_init ''token'',
               2 := Alter_init (ex_heap(1 := Empty_init ''token'')) 1 (\<lambda>v. Inl ValueError)),
            [])"
    using alter_get_value
      [where h = "ex_heap(1 := Empty_init ''token'',
               2 := Alter_init (ex_heap(1 := Empty_init ''token'')) 1 (\<lambda>v. Inl ValueError))"
         and self = 2 and src = 1 and hc = "ex_heap(1 := Empty_init ''token'')"
         and f = "\<lambda>v. Inl ValueError" and old = None and L = ex_lib
         and userdata = Map.empty, THEN conjunct2, THEN conjunct2]
    by (simp add: truthy_def Alter_init_def Plugin_init_def Empty_init_def)
  show ?thesis
    using a b c by simp
qed

text \<open>
  Claim C8 as stated fails for a source whose value is the empty string: the source has
  a value, yet the transform is not called, and \<open>Alter.prepend(node, "X-")\<close> resolves to
  \<open>None\<close>, not to \<open>"X-"\<close>.
\<close>

theorem alter_counterexample:
  "pvalue ((ex_heap(1 := (Empty_init ''token'')\<lparr>pvalue := Some ''''\<rparr>,
               2 := Alter_prepend (ex_heap(1 := Empty_init ''token'')) 1 ''X-'')) 1) = Some ''''
   \<and> returned (get_value ex_lib
      (ex_heap(1 := (Empty_init ''token'')\<lparr>pvalue := Some ''''\<rparr>,
               2 := Alter_prepend (ex_heap(1 := Empty_init ''token'')) 1 ''X-''))
      2 Map.empty) = Inr None"
  by (simp add: returned_def get_value_def call_function_def no_args_def
      process_value_def needs_response_def needs_userdata_def Alter_prepend_def Alter_init_def
      Plugin_init_def Empty_init_def NEEDS_USERDATA_def NEEDS_RESPONSE_def
      DEPENDS_ON_OTHER_PLUGINS_def)

subsection \<open>Regex\<close>

lemma Regex_init_fields:
  "pfunction (Regex_init nm rx ex) = F_extract_regex"
  "flags (Regex_init nm rx ex) = 2"
  "name (Regex_init nm rx ex) = nm"
  "cls (Regex_init nm rx ex) = Regex rx ex"
  by (simp_all add: Regex_init_def Plugin_init_def NEEDS_RESPONSE_def NEEDS_USERDATA_def)

text \<open>
  Claim C1. When \<open>re.search\<close> finds no match, \<open>extract_regex\<close> logs the warning and
  returns \<open>self.value\<close>, which it has not touched: the value the plugin had before
  (\<open>old\<close>), not \<open>None\<close>. The result is \<open>None\<close> only for a plugin that never had a value.
  \<open>extract_value_from_response\<close> then takes a non-empty old value for a fresh result and
  logs "Found ouput". The docstring of \<open>extract_regex\<close> says "Returns None if there are
  no matches", and \<open>Json.extract_json_field\<close> resets \<open>self.value\<close> to \<open>None\<close> in the same
  situation. The instance below is a plugin that matched \<open>"abc"\<close> in an earlier response and is
  resolved against a response without a match.
\<close>

theorem extract_regex_no_match_keeps_value:
  assumes "h self = (Regex_init nm rx ex)\<lparr>pvalue := old\<rparr>"
    and "re_search L rx (response_text resp) = Inr None"
  shows "extract_regex L h self resp =
           Inr (old, h, [Log WARNING ''Regex %s not found in the response body'' [nm]])
         \<and> extract_value_from_response L h self (Some resp) =
           Inr ((), h,
                [Log WARNING ''Regex %s not found in the response body'' [nm],
                 if truthy old then Log DEBUG ''Found ouput %s = %s'' [nm, str_opt old]
                 else Log WARNING ''Couldn't extract output: %s'' [nm]])"
proof -
  have f: "pfunction (h self) = F_extract_regex" "cls (h self) = Regex rx ex"
      "name (h self) = nm" "pvalue (h self) = old"
    using assms(1) by (simp_all add: Regex_init_fields)
  have same: "h(self := (h self)\<lparr>pvalue := old\<rparr>) = h"
    using f(4) heap_same_value [of h self] by simp
  have r: "extract_regex L h self resp =
           Inr (old, h, [Log WARNING ''Regex %s not found in the response body'' [nm]])"
    using f assms(2) by (simp add: extract_regex_def)
  have "call_function L h self [A_response (Some resp)] =
           Inr (old, h, [Log WARNING ''Regex %s not found in the response body'' [nm]])"
    using f r by (simp add: call_function_def as_response_def)
  then have "extract_value_from_response L h self (Some resp) =
           Inr ((), h,
                [Log WARNING ''Regex %s not found in the response body'' [nm],
                 if truthy old then Log DEBUG ''Found ouput %s = %s'' [nm, str_opt old]
                 else Log WARNING ''Couldn't extract output: %s'' [nm]])"
    using f(3) same by (simp add: extract_value_from_response_def)
  with r show ?thesis by simp
qed

theorem extract_regex_no_match_keeps_value_witness:
  "re_search ex_lib ''token=([a-z]+)'' (response_text (ex_response ''login failed'')) = Inr None
   \<and> extract_regex ex_lib
        (ex_heap(1 := (Regex_init ''csrf'' ''token=([a-z]+)'' 0)\<lparr>pvalue := Some ''abc''\<rparr>)) 1
        (ex_response ''login failed'')
      = Inr (Some ''abc'',
             ex_heap(1 := (Regex_init ''csrf'' ''token=([a-z]+)'' 0)\<lparr>pvalue := Some ''abc''\<rparr>),
             [Log WARNING ''Regex %s not found in the response body'' [''csrf'']])
   \<and> extract_value_from_response ex_lib
        (ex_heap(1 := (Regex_init ''csrf'' ''token=([a-z]+)'' 0)\<lparr>pvalue := Some ''abc''\<rparr>)) 1
        (Some (ex_response ''login failed''))
      = Inr ((),
             ex_heap(1 := (Regex_init ''csrf'' ''token=([a-z]+)'' 0)\<lparr>pvalue := Some ''abc''\<rparr>),
             [Log WARNING ''Regex %s not found in the response body'' [''csrf''],
              Log DEBUG ''Found ouput %s = %s'' [''csrf'', ''abc'']])"
  using extract_regex_no_match_keeps_value
    [where h = "ex_heap(1 := (Regex_init ''csrf'' ''token=([a-z]+)'' 0)\<lparr>pvalue := Some ''abc''\<rparr>)"
       and self = 1 and nm = "''csrf''" and rx = "''token=([a-z]+)''" and ex = 0
       and old = "Some ''abc''" and L = ex_lib and resp = "ex_response ''login failed''"]
  by (simp add: ex_lib_def ex_re_search_def ex_response_def truthy_def str_opt_def)

text \<open>On a match the plugin's value and the result are the entry of \<open>groups()\<close> at the
  index \<open>extract\<close>; index 0 is the first capture group.\<close>

lemma extract_regex_match:
  assumes "h self = (Regex_init nm rx ex)\<lparr>pvalue := old\<rparr>"
    and "re_search L rx (response_text resp) = Inr (Some groups)"
    and "py_index groups ex = Inr g"
  shows "extract_regex L h self resp =
           Inr (g, h(self := (h self)\<lparr>pvalue := g\<rparr>),
                [Log DEBUG ''Regex %s: %s'' [nm, str_opt g]])"
  using assms by (simp add: extract_regex_def Regex_init_fields)

lemma extract_regex_match_example:
  "returned (extract_regex ex_lib (ex_heap(1 := Regex_init ''csrf'' ''token=([a-z]+)'' 0)) 1
     (ex_response ''token=abc'')) = Inr (Some ''abc'')"
  by (simp add: returned_def extract_regex_def Regex_init_fields ex_lib_def ex_re_search_def
      ex_response_def py_index_def)

subsection \<open>Html\<close>

lemma Html_init_fields:
  "pfunction (Html_init nm tg ats ex) = F_extract_html_tag"
  "flags (Html_init nm tg ats ex) = 2"
  "name (Html_init nm tg ats ex) = nm"
  "cls (Html_init nm tg ats ex) = Html tg ats ex"
  by (simp_all add: Html_init_def Plugin_init_def NEEDS_RESPONSE_def NEEDS_USERDATA_def)

lemma html_loop_filter:
  "html_loop L ats ex v items =
     (if filter (\<lambda>e. match_tag L e ats) items = [] then v
      else attrs (last (filter (\<lambda>e. match_tag L e ats) items)) ex)"
  by (induction items arbitrary: v) auto

text \<open>
  Claim C5. When no element of the response passes \<open>match_tag\<close>, the loop of
  \<open>extract_html_tag\<close> assigns nothing and the method returns \<open>self.value\<close> as it was
  (\<open>old\<close>), with a debug record; the result is absent only for a plugin that never had
  a value. \<open>extract_value_from_response\<close> logs its warning only when the old value is
  \<open>None\<close> or empty, and "Found ouput" otherwise. The docstring of \<open>extract_html_tag\<close>
  says "Returns None if there are no matches". The instance below is a plugin that holds
  \<open>"t2"\<close> from an earlier response and is resolved against a page without the tag.
\<close>

theorem extract_html_tag_no_match_keeps_value:
  assumes "h self = (Html_init nm tg ats ex)\<lparr>pvalue := old\<rparr>"
    and "filter (\<lambda>e. match_tag L e ats) (find_all L (response_text resp) tg) = []"
  shows "extract_html_tag L h self resp =
           Inr (old, h, [Log DEBUG ''Html filter %s: %s'' [nm, str_opt old]])
         \<and> extract_value_from_response L h self (Some resp) =
           Inr ((), h,
                [Log DEBUG ''Html filter %s: %s'' [nm, str_opt old],
                 if truthy old then Log DEBUG ''Found ouput %s = %s'' [nm, str_opt old]
                 else Log WARNING ''Couldn't extract output: %s'' [nm]])"
proof -
  have f: "pfunction (h self) = F_extract_html_tag" "cls (h self) = Html tg ats ex"
      "name (h self) = nm" "pvalue (h self) = old"
    using assms(1) by (simp_all add: Html_init_fields)
  have same: "h(self := (h self)\<lparr>pvalue := old\<rparr>) = h"
    using f(4) heap_same_value [of h self] by simp
  have r: "extract_html_tag L h self resp =
           Inr (old, h, [Log DEBUG ''Html filter %s: %s'' [nm, str_opt old]])"
    using f assms(2) same by (simp add: extract_html_tag_def html_loop_filter Let_def)
  have "call_function L h self [A_response (Some resp)] =
           Inr (old, h, [Log DEBUG ''Html filter %s: %s'' [nm, str_opt old]])"
    using f r by (simp add: call_function_def as_response_def)
  then have "extract_value_from_response L h self (Some resp) =
           Inr ((), h,
                [Log DEBUG ''Html filter %s: %s'' [nm, str_opt old],
                 if truthy old then Log DEBUG ''Found ouput %s = %s'' [nm, str_opt old]
                 else Log WARNING ''Couldn't extract output: %s'' [nm]])"
    using f(3) same by (simp add: extract_value_from_response_def)
  with r show ?thesis by simp
qed

theorem extract_html_tag_no_match_keeps_value_witness:
  "filter (\<lambda>e. match_tag ex_lib e [(''name'', ''csrf'')])
     (find_all ex_lib (response_text (ex_response ''<p>expired</p>'')) ''input'') = []
   \<and> extract_html_tag ex_lib
        (ex_heap(1 := (Html_init ''csrf'' ''input'' [(''name'', ''csrf'')] ''value'')
                        \<lparr>pvalue := Some ''t2''\<rparr>)) 1
        (ex_response ''<p>expired</p>'')
      = Inr (Some ''t2'',
             ex_heap(1 := (Html_init ''csrf'' ''input'' [(''name'', ''csrf'')] ''value'')
                        \<lparr>pvalue := Some ''t2''\<rparr>),
             [Log DEBUG ''Html filter %s: %s'' [''csrf'', ''t2'']])
   \<and> extract_value_from_response ex_lib
        (ex_heap(1 := (Html_init ''csrf'' ''input'' [(''name'', ''csrf'')] ''value'')
                        \<lparr>pvalue := Some ''t2''\<rparr>)) 1
        (Some (ex_response ''<p>expired</p>''))
      = Inr ((),
             ex_heap(1 := (Html_init ''csrf'' ''input'' [(''name'', ''csrf'')] ''value'')
                        \<lparr>pvalue := Some ''t2''\<rparr>),
             [Log DEBUG ''Html filter %s: %s'' [''csrf'', ''t2''],
              Log DEBUG ''Found ouput %s = %s'' [''csrf'', ''t2'']])"
  using extract_html_tag_no_match_keeps_value
    [where h = "ex_heap(1 := (Html_init ''csrf'' ''input'' [(''name'', ''csrf'')] ''value'')
                        \<lparr>pvalue := Some ''t2''\<rparr>)"
       and self = 1 and nm = "''csrf''" and tg = "''input''" and ats = "[(''name'', ''csrf'')]"
       and ex = "''value''" and old = "Some ''t2''" and L = ex_lib
       and resp = "ex_response ''<p>expired</p>''"]
  by (simp add: ex_lib_def ex_find_all_def ex_response_def truthy_def str_opt_def)

text \<open>The other half of claim C5 holds: when elements match, the result is the
  extracted attribute of the last of them in document order.\<close>

lemma extract_html_tag_last_match:
  assumes "h self = (Html_init nm tg ats ex)\<lparr>pvalue := old\<rparr>"
    and "filter (\<lambda>e. match_tag L e ats) (find_all L (response_text resp) tg) \<noteq> []"
  shows "returned (extract_html_tag L h self resp) =
           Inr (attrs (last (filter (\<lambda>e. match_tag L e ats)
                               (find_all L (response_text resp) tg))) ex)"
  using assms
  by (simp add: extract_html_tag_def Html_init_fields html_loop_filter returned_def Let_def)

lemma extract_html_tag_last_match_example:
  "returned (extract_html_tag ex_lib
      (ex_heap(1 := Html_init ''csrf'' ''input'' [(''name'', ''csrf'')] ''value'')) 1
      (ex_response ''<input name=csrf value=t1><input name=csrf value=t2>'')) = Inr (Some ''t2'')"
  by (simp add: returned_def extract_html_tag_def Html_init_fields ex_lib_def ex_find_all_def
      ex_match_tag_def ex_response_def Let_def)

subsection \<open>Json: the loop over the filter\<close>

lemma map_of_in_keys: "map_of kvs k = Some v \<Longrightarrow> k \<in> fst ` set kvs"
  by (metis map_of_eq_None_iff option.distinct(1))

lemma json_loop_key_found:
  assumes "\<not> startswith item ''[''" and "map_of kvs item = Some v"
  shows "json_loop (JDict kvs) (item # rest) = json_loop v rest"
  using assms map_of_in_keys [OF assms(2)]
  by (simp add: contains_str_def getitem_str_def)

lemma json_loop_index_found:
  assumes "startswith item ''[''" and "py_int (py_strip ''[]'' item) = Inr i"
    and "0 \<le> i" and "nat i < length xs"
  shows "json_loop (JList xs) (item # rest) = json_loop (xs ! nat i) rest"
proof -
  have "i < int (length xs)"
    using assms(3,4) by linarith
  then show ?thesis
    using assms(1,2,3) by (simp add: py_len_def getitem_int_def py_index_def)
qed

lemma json_loop_step_found:
  assumes "step_of_item item = Some s" and "spec_lookup temp [s] = Some t"
  shows "json_loop temp (item # rest) = json_loop t rest"
proof (cases s)
  case (Key k)
  with assms(1) have k: "\<not> startswith item ''[''" "k = item"
    by (auto simp: step_of_item_def split: if_splits sum.splits)
  from assms(2) Key obtain kvs where "temp = JDict kvs" "map_of kvs k = Some t"
    by (cases temp) (auto split: option.splits)
  with k show ?thesis using json_loop_key_found by simp
next
  case (Index n)
  with assms(1) obtain i where i: "startswith item ''[''"
      "py_int (py_strip ''[]'' item) = Inr i" "0 \<le> i" "n = nat i"
    by (auto simp: step_of_item_def split: if_splits sum.splits)
  from assms(2) Index obtain xs where "temp = JList xs" "n < length xs" "t = xs ! n"
    by (cases temp) (auto split: if_splits)
  with i show ?thesis using json_loop_index_found by simp
qed

lemma json_loop_step_not_found:
  assumes "step_of_item item = Some s" and "step_not_found temp s"
  shows "json_loop temp (item # rest) = Inr (None, [json_warning s])"
proof (cases s)
  case (Key k)
  with assms(1) have k: "\<not> startswith item ''[''" "k = item"
    by (auto simp: step_of_item_def split: if_splits sum.splits)
  from assms(2) Key obtain kvs where "temp = JDict kvs" "map_of kvs k = None"
    by (cases temp) auto
  with k Key show ?thesis
    by (simp add: contains_str_def map_of_eq_None_iff)
next
  case (Index n)
  with assms(1) obtain i where i: "startswith item ''[''"
      "py_int (py_strip ''[]'' item) = Inr i" "0 \<le> i" "n = nat i"
    by (auto simp: step_of_item_def split: if_splits sum.splits)
  from assms(2) Index obtain xs where xs: "temp = JList xs" "length xs \<le> n"
    by (cases temp) auto
  with i have "\<not> i < int (length xs)"
    by linarith
  with i xs Index show ?thesis
    by (simp add: py_len_def)
qed

lemma json_loop_failing_step:
  "failing_step temp items = Some s \<Longrightarrow> json_loop temp items = Inr (None, [json_warning s])"
proof (induction items arbitrary: temp)
  case Nil
  then show ?case by simp
next
  case (Cons item rest)
  from Cons.prems obtain s' where s': "step_of_item item = Some s'"
    by (auto split: option.splits)
  show ?case
  proof (cases "step_not_found temp s'")
    case True
    with Cons.prems s' have "s' = s" by simp
    with s' True show ?thesis using json_loop_step_not_found by simp
  next
    case False
    with Cons.prems s' obtain t where t: "spec_lookup temp [s'] = Some t"
        "failing_step t rest = Some s"
      by (auto split: option.splits)
    then show ?thesis
      using json_loop_step_found [OF s' t(1)] Cons.IH by simp
  qed
qed

lemma spec_lookup_Cons:
  "spec_lookup temp (s # rest) =
     (case spec_lookup temp [s] of None \<Rightarrow> None | Some t \<Rightarrow> spec_lookup t rest)"
  by (cases "(temp, s # rest)" rule: spec_lookup.cases) (auto split: option.splits)

lemma json_loop_found:
  "map step_of_item items = map Some steps \<Longrightarrow> spec_lookup data steps = Some v \<Longrightarrow>
   json_loop data items = Inr (Some v, [])"
proof (induction items arbitrary: data steps)
  case Nil
  then show ?case by simp
next
  case (Cons item rest)
  from Cons.prems(1) obtain s steps' where st: "steps = s # steps'"
      "step_of_item item = Some s" "map step_of_item rest = map Some steps'"
    by (cases steps) auto
  from Cons.prems(2) st(1) obtain t where t: "spec_lookup data [s] = Some t"
      "spec_lookup t steps' = Some v"
    using spec_lookup_Cons [of data s steps'] by (auto split: option.splits)
  show ?case
    using json_loop_step_found [OF st(2) t(1)] Cons.IH [OF st(3) t(2)] by simp
qed

subsection \<open>Json: a path that finds nothing\<close>

lemma Json_init_fields:
  "pfunction (Json_init nm ex F_None NEEDS_RESPONSE) = F_extract_json_from_response"
  "flags (Json_init nm ex F_None NEEDS_RESPONSE) = 2"
  "name (Json_init nm ex f fl) = nm"
  "cls (Json_init nm ex f fl) = Json ex"
  by (simp_all add: Json_init_def Plugin_init_def NEEDS_RESPONSE_def NEEDS_USERDATA_def)

lemma Json_from_plugin_fields:
  "pfunction (Json_from_plugin plg nm ex) = F_extract_json_field"
  "flags (Json_from_plugin plg nm ex) = 4"
  "name (Json_from_plugin plg nm ex) = nm"
  "cls (Json_from_plugin plg nm ex) = Json ex"
  "plugins (Json_from_plugin plg nm ex) = [plg]"
  by (simp_all add: Json_from_plugin_def Json_init_def Plugin_init_def
      DEPENDS_ON_OTHER_PLUGINS_def NEEDS_USERDATA_def)

text \<open>
  Claim C2. Let the document parse (\<open>json.loads\<close> returns \<open>data\<close>) and let the parsed
  path reference a missing key or an index out of range: its steps find their key or
  index one after the other until a key step meets an object without the key, or an
  index step meets an array whose length the index reaches or exceeds
  (\<open>failing_step\<close> gives that step). Then \<open>extract_json_field\<close> raises nothing, returns
  \<open>None\<close>, sets the plugin's value to \<open>None\<close> and logs the one warning of that step; so
  does \<open>extract_json_from_response\<close> on a response with that body. An index is the
  zero-based, non-negative index of section 4.2 of the specification.
\<close>

theorem extract_json_field_not_found:
  assumes "cls (h self) = Json ex"
    and "json_loads L txt = Inr data"
    and "failing_step data (parse_json_filter L ex) = Some s"
  shows "extract_json_field L h self txt =
           Inr (None, h(self := (h self)\<lparr>pvalue := None\<rparr>), [json_warning s])
         \<and> extract_json_from_response L h self (resp\<lparr>response_text := txt\<rparr>) =
           Inr (None, h(self := (h self)\<lparr>pvalue := None\<rparr>), [json_warning s])"
  using assms json_loop_failing_step [OF assms(3)]
  by (simp add: extract_json_field_def extract_json_from_response_def)

theorem extract_json_field_not_found_witness:
  \<open>failing_step (JDict [(''a'', JDict [(''b'', JStr ''c'')]), (''n'', JList [JInt 1, JInt 2])])
     (parse_json_filter ex_lib ''n[5]'') = Some (Index 5)
   \<and> failing_step (JDict [(''a'', JDict [(''b'', JStr ''c'')]), (''n'', JList [JInt 1, JInt 2])])
     (parse_json_filter ex_lib ''a.x'') = Some (Key ''x'')
   \<and> extract_json_field ex_lib
        (ex_heap(1 := (Json_init ''j'' ''n[5]'' F_None NEEDS_RESPONSE)\<lparr>pvalue := Some ''old''\<rparr>)) 1
        ''{"a": {"b": "c"}, "n": [1, 2]}''
      = Inr (None, ex_heap(1 := Json_init ''j'' ''n[5]'' F_None NEEDS_RESPONSE),
             [Log WARNING
                ''("JSON array index doesn't exist.", "Cannot extract plugin's value.")'' []])
   \<and> extract_json_field ex_lib
        (ex_heap(1 := (Json_init ''j'' ''a.x'' F_None NEEDS_RESPONSE)\<lparr>pvalue := Some ''old''\<rparr>)) 1
        ''{"a": {"b": "c"}, "n": [1, 2]}''
      = Inr (None, ex_heap(1 := Json_init ''j'' ''a.x'' F_None NEEDS_RESPONSE),
             [Log WARNING
                ''("Key '%s' not found in the response body.", "Cannot extract plugin's value.")''
                [''x'']])\<close>
proof -
  have p5: "parse_json_filter ex_lib ''n[5]'' = [''n'', ''[5]'']"
    and px: "parse_json_filter ex_lib ''a.x'' = [''a'', ''x'']"
    by (simp_all add: ex_lib_def ex_parse_json_filter_def)
  have s1: "step_of_item ''n'' = Some (Key ''n'')" "step_of_item ''a'' = Some (Key ''a'')"
      "step_of_item ''x'' = Some (Key ''x'')"
    by (simp_all add: step_of_item_def startswith_def)
  have s2: "step_of_item ''[5]'' = Some (Index 5)"
    by (simp add: step_of_item_def startswith_def py_strip_def py_int_def py_isspace_def
        is_digit_def digit_val_def)
  have f5: "failing_step (JDict [(''a'', JDict [(''b'', JStr ''c'')]), (''n'', JList [JInt 1, JInt 2])])
     (parse_json_filter ex_lib ''n[5]'') = Some (Index 5)"
    by (simp add: p5 s1 s2)
  have fx: "failing_step (JDict [(''a'', JDict [(''b'', JStr ''c'')]), (''n'', JList [JInt 1, JInt 2])])
     (parse_json_filter ex_lib ''a.x'') = Some (Key ''x'')"
    by (simp add: px s1)
  have l: \<open>json_loads ex_lib ''{"a": {"b": "c"}, "n": [1, 2]}'' =
      Inr (JDict [(''a'', JDict [(''b'', JStr ''c'')]), (''n'', JList [JInt 1, JInt 2])])\<close>
    by (simp add: ex_lib_def ex_json_loads_def)
  show ?thesis
    using f5 fx
      extract_json_field_not_found
        [where h = "ex_heap(1 := (Json_init ''j'' ''n[5]'' F_None NEEDS_RESPONSE)\<lparr>pvalue := Some ''old''\<rparr>)"
           and self = 1 and ex = "''n[5]''" and L = ex_lib and s = "Index 5", OF _ l]
      extract_json_field_not_found
        [where h = "ex_heap(1 := (Json_init ''j'' ''a.x'' F_None NEEDS_RESPONSE)\<lparr>pvalue := Some ''old''\<rparr>)"
           and self = 1 and ex = "''a.x''" and L = ex_lib and s = "Key ''x''", OF _ l]
    by (simp add: Json_init_fields Json_init_def Plugin_init_def index_warning_def
        key_warning_def)
qed

subsection \<open>Json: a valid path\<close>

lemma extract_json_field_value:
  assumes "cls (h self) = Json ex"
    and "json_loads L txt = Inr data"
    and "map step_of_item (parse_json_filter L ex) = map Some steps"
    and "spec_lookup data steps = Some v"
  shows "extract_json_field L h self txt =
           Inr (Some (py_str v), h(self := (h self)\<lparr>pvalue := Some (py_str v)\<rparr>),
                [Log DEBUG ''Json filter %s: %s'' [name (h self), py_str v]])"
  using assms(1,2) json_loop_found [OF assms(3,4)]
  by (simp add: extract_json_field_def)

text \<open>
  Claim C6, as amended. Let the document parse and let the path be valid: its items
  stand for steps that address the substructure \<open>v\<close> of the document. Then the function
  of a \<open>Json\<close> plugin built for responses, called with a response of that body, returns
  \<open>str(v)\<close>, stores it as the plugin's value and logs it. \<open>str\<close> is Python's: a string is
  its own text, an int its decimal digits, \<open>true\<close>, \<open>false\<close> and \<open>null\<close> are \<open>True\<close>,
  \<open>False\<close> and \<open>None\<close>, and a list or a dict is its \<open>repr\<close>, with strings in single
  quotes.
\<close>

theorem json_extraction_is_str:
  assumes "json_loads L txt = Inr data"
    and "map step_of_item (parse_json_filter L ex) = map Some steps"
    and "spec_lookup data steps = Some v"
    and "h a = (Json_init nm ex F_None NEEDS_RESPONSE)\<lparr>pvalue := old\<rparr>"
  shows "call_function L h a [A_response (Some (resp\<lparr>response_text := txt\<rparr>))] =
           Inr (Some (py_str v), h(a := (h a)\<lparr>pvalue := Some (py_str v)\<rparr>),
                [Log DEBUG ''Json filter %s: %s'' [nm, py_str v]])"
proof -
  have a: "pfunction (h a) = F_extract_json_from_response" "cls (h a) = Json ex"
      "name (h a) = nm"
    using assms(4) by (simp_all add: Json_init_fields)
  show ?thesis
    using a(1,3) extract_json_field_value [where h = h and self = a, OF a(2) assms(1,2,3)]
    by (simp add: call_function_def as_response_def extract_json_from_response_def)
qed

theorem json_extraction_is_str_witness:
  \<open>returned (call_function ex_lib
       (ex_heap(1 := Json_init ''j'' ''n[1]'' F_None NEEDS_RESPONSE))
       1 [A_response (Some (ex_response ''{"a": {"b": "c"}, "n": [1, 2]}''))])
     = Inr (Some ''2'')
   \<and> value_after (call_function ex_lib
       (ex_heap(1 := Json_init ''j'' ''n[1]'' F_None NEEDS_RESPONSE))
       1 [A_response (Some (ex_response ''{"a": {"b": "c"}, "n": [1, 2]}''))]) 1
     = Inr (Some ''2'')\<close>
proof -
  have p: "map step_of_item (parse_json_filter ex_lib ''n[1]'') = map Some [Key ''n'', Index 1]"
    by (simp add: ex_lib_def ex_parse_json_filter_def step_of_item_def startswith_def
        py_strip_def py_int_def py_isspace_def is_digit_def digit_val_def)
  have l: \<open>json_loads ex_lib ''{"a": {"b": "c"}, "n": [1, 2]}'' =
      Inr (JDict [(''a'', JDict [(''b'', JStr ''c'')]), (''n'', JList [JInt 1, JInt 2])])\<close>
    by (simp add: ex_lib_def ex_json_loads_def)
  have v: "spec_lookup (JDict [(''a'', JDict [(''b'', JStr ''c'')]), (''n'', JList [JInt 1, JInt 2])])
      [Key ''n'', Index 1] = Some (JInt 2)"
    by simp
  have s: "py_str (JInt 2) = ''2''"
    by (simp add: py_str_def str_int_def digit_char_def)
  have r: \<open>(ex_response ''{"a": {"b": "c"}, "n": [1, 2]}'')
      \<lparr>response_text := ''{"a": {"b": "c"}, "n": [1, 2]}''\<rparr>
      = ex_response ''{"a": {"b": "c"}, "n": [1, 2]}''\<close>
    by (simp add: ex_response_def)
  show ?thesis
    using json_extraction_is_str
      [where h = "ex_heap(1 := Json_init ''j'' ''n[1]'' F_None NEEDS_RESPONSE)"
         and a = 1 and nm = "''j''" and old = None and ex = "''n[1]''" and L = ex_lib
         and resp = \<open>ex_response ''{"a": {"b": "c"}, "n": [1, 2]}''\<close>, OF l p v]
    by (simp add: r s returned_def value_after_def Json_init_def Plugin_init_def)
qed

text \<open>
  Claim C6 as stated fails for an object: the path \<open>a\<close> addresses the object whose JSON
  text is \<open>{"b": "c"}\<close>, and the extraction returns \<open>{'b': 'c'}\<close>, which is not JSON.
\<close>

theorem json_extraction_counterexample:
  \<open>spec_lookup (JDict [(''a'', JDict [(''b'', JStr ''c'')]), (''n'', JList [JInt 1, JInt 2])])
       [Key ''a''] = Some (JDict [(''b'', JStr ''c'')])
   \<and> json_text (JDict [(''b'', JStr ''c'')]) = ''{"b": "c"}''
   \<and> returned (call_function ex_lib
       (ex_heap(1 := Json_init ''j'' ''a'' F_None NEEDS_RESPONSE))
       1 [A_response (Some (ex_response ''{"a": {"b": "c"}, "n": [1, 2]}''))])
     = Inr (Some ''{'b': 'c'}'')
   \<and> returned (call_function ex_lib
       (ex_heap(1 := Json_init ''j'' ''a'' F_None NEEDS_RESPONSE))
       1 [A_response (Some (ex_response ''{"a": {"b": "c"}, "n": [1, 2]}''))])
     \<noteq> Inr (Some (json_text (JDict [(''b'', JStr ''c'')])))\<close>
  by (simp add: returned_def call_function_def as_response_def extract_json_from_response_def
      extract_json_field_def Json_init_fields ex_lib_def ex_json_loads_def
      ex_parse_json_filter_def ex_response_def startswith_def contains_str_def getitem_str_def
      py_str_def repr_str_def repr_char_def py_printable_def json_quote_def json_escape_def
      Let_def)

text \<open>
  A \<open>Json\<close> plugin built by \<open>from_plugin\<close> holds \<open>extract_json_field\<close>, which takes the
  text, and has the flag DEPENDS_ON_OTHER_PLUGINS only. \<open>get_value\<close> calls the function of
  such a plugin without an argument, and \<open>extract_value_from_response\<close> passes it the
  response, which \<open>json.loads\<close> refuses: both raise TypeError, and neither reads the value
  of the plugin in \<open>plugins\<close>. The docstring of \<open>from_plugin\<close> says "Extracts the JSON field
  from another plugin's value".
\<close>

lemma json_from_plugin_get_value_raises:
  "get_value L (h(b := Json_from_plugin plg nm ex)) b userdata = Inl TypeError"
  by (simp add: get_value_def call_function_def Json_from_plugin_fields needs_response_def
      needs_userdata_def NEEDS_RESPONSE_def NEEDS_USERDATA_def)

lemma json_from_plugin_extract_value_raises:
  "extract_value_from_response L (h(b := Json_from_plugin plg nm ex)) b resp = Inl TypeError"
  by (simp add: extract_value_from_response_def call_function_def Json_from_plugin_fields)

lemma py_str_scalars:
  "py_str (JStr s) = s"
  "py_str (JInt i) = str_int i"
  "py_str (JBool True) = ''True''"
  "py_str (JBool False) = ''False''"
  "py_str JNull = ''None''"
  by (simp_all add: py_str_def)

subsection \<open>Plugin.extract_value_from_response\<close>

lemma Header_init_response_fields:
  "pfunction (Header_init nm v F_None NEEDS_RESPONSE) = F_header_extract_from_response"
  "flags (Header_init nm v F_None NEEDS_RESPONSE) = 2"
  "name (Header_init nm v f fl) = nm"
  "pvalue (Header_init nm v f fl) = v"
  by (simp_all add: Header_init_def Plugin_init_def NEEDS_RESPONSE_def NEEDS_USERDATA_def)

lemma Cookie_init_response_fields:
  "pfunction (Cookie_init nm v F_None NEEDS_RESPONSE) = F_cookie_extract_from_response"
  "flags (Cookie_init nm v F_None NEEDS_RESPONSE) = 2"
  "name (Cookie_init nm v f fl) = nm"
  "pvalue (Cookie_init nm v f fl) = v"
  by (simp_all add: Cookie_init_def Plugin_init_def NEEDS_RESPONSE_def NEEDS_USERDATA_def)

lemma not_found_call:
  assumes "not_found L h self r"
  shows "\<exists>out hq logs. call_function L h self [A_response (Some r)] = Inr (out, hq, logs)"
proof (cases "pfunction (h self)")
  case F_extract_regex
  with assms obtain rx ex where "cls (h self) = Regex rx ex"
      "re_search L rx (response_text r) = Inr None"
    by (auto simp: not_found_def split: pyclass.splits)
  with F_extract_regex show ?thesis
    by (simp add: call_function_def as_response_def extract_regex_def)
next
  case F_extract_html_tag
  with assms obtain tg ats ex where "cls (h self) = Html tg ats ex"
    by (auto simp: not_found_def split: pyclass.splits)
  with F_extract_html_tag show ?thesis
    by (simp add: call_function_def as_response_def extract_html_tag_def Let_def)
next
  case F_extract_json_from_response
  with assms obtain ex data where j: "cls (h self) = Json ex"
      "json_loads L (response_text r) = Inr data"
      "failing_step data (parse_json_filter L ex) \<noteq> None"
    by (auto simp: not_found_def split: pyclass.splits sum.splits)
  then obtain s where "failing_step data (parse_json_filter L ex) = Some s"
    by auto
  from json_loop_failing_step [OF this] j F_extract_json_from_response show ?thesis
    by (simp add: call_function_def as_response_def extract_json_from_response_def
        extract_json_field_def)
next
  case F_cookie_extract_from_response
  then show ?thesis
    by (simp add: call_function_def as_response_def cookie_extract_from_response_def)
next
  case F_header_extract_from_response
  then show ?thesis
    by (simp add: call_function_def as_response_def header_extract_from_response_def)
qed (use assms in \<open>simp_all add: not_found_def\<close>)

text \<open>
  Claim C3, as amended. \<open>extract_value_from_response\<close> calls the plugin's function with
  the response and tests \<open>if output\<close>. When the function returns a non-empty string, the
  method overwrites the plugin's value with it and logs at debug level. When the function
  returns \<open>None\<close> or the empty string, the method does not write the plugin's value (the
  heap is the one the function left) and logs a warning that names the plugin. Under a
  not-found condition of a plugin that reads the response (no match, no element, a key
  missing from an object or an index at or beyond the length of an array, missing cookie
  or header) the method raises nothing. It catches nothing: an exception of the function
  propagates.
\<close>

theorem extract_value_from_response_outcomes:
  "(call_function L h self [A_response resp] = Inr (out, hq, logs) \<longrightarrow>
      extract_value_from_response L h self resp =
        (if out = None \<or> out = Some []
         then Inr ((), hq,
                   logs @ [Log WARNING ''Couldn't extract output: %s'' [name (hq self)]])
         else Inr ((), hq(self := (hq self)\<lparr>pvalue := out\<rparr>),
                   logs @ [Log DEBUG ''Found ouput %s = %s'' [name (hq self), str_opt out]])))
   \<and> (call_function L h self [A_response resp] = Inl e \<longrightarrow>
      extract_value_from_response L h self resp = Inl e)
   \<and> (not_found L h self r \<longrightarrow>
      returned (extract_value_from_response L h self (Some r)) = Inr ())"
proof (intro conjI impI)
  assume "call_function L h self [A_response resp] = Inr (out, hq, logs)"
  then show "extract_value_from_response L h self resp =
        (if out = None \<or> out = Some []
         then Inr ((), hq,
                   logs @ [Log WARNING ''Couldn't extract output: %s'' [name (hq self)]])
         else Inr ((), hq(self := (hq self)\<lparr>pvalue := out\<rparr>),
                   logs @ [Log DEBUG ''Found ouput %s = %s'' [name (hq self), str_opt out]]))"
    by (cases out) (simp_all add: extract_value_from_response_def truthy_def)
next
  assume "call_function L h self [A_response resp] = Inl e"
  then show "extract_value_from_response L h self resp = Inl e"
    by (simp add: extract_value_from_response_def)
next
  assume "not_found L h self r"
  from not_found_call [OF this] obtain out hq logs
    where "call_function L h self [A_response (Some r)] = Inr (out, hq, logs)"
    by blast
  then show "returned (extract_value_from_response L h self (Some r)) = Inr ()"
    by (simp add: extract_value_from_response_def returned_def)
qed

theorem extract_value_from_response_outcomes_witness:
  "extract_value_from_response ex_lib
      (ex_heap(1 := Header_init ''Server'' None F_None NEEDS_RESPONSE)) 1
      (Some (ex_response ''ok''))
     = Inr ((), ex_heap(1 := Header_init ''Server'' (Some ''nginx'') F_None NEEDS_RESPONSE),
            [Log DEBUG ''Found ouput %s = %s'' [''Server'', ''nginx'']])
   \<and> extract_value_from_response ex_lib
      (ex_heap(1 := Header_init ''Location'' None F_None NEEDS_RESPONSE)) 1
      (Some (ex_response ''ok''))
     = Inr ((), ex_heap(1 := Header_init ''Location'' None F_None NEEDS_RESPONSE),
            [Log WARNING ''Couldn't extract output: %s'' [''Location'']])
   \<and> extract_value_from_response ex_lib
      (ex_heap(1 := Header_init ''Server'' None F_None NEEDS_RESPONSE)) 1 None
     = Inl AttributeError
   \<and> not_found ex_lib (ex_heap(1 := Header_init ''Location'' None F_None NEEDS_RESPONSE)) 1
        (ex_response ''ok'')
   \<and> returned (extract_value_from_response ex_lib
      (ex_heap(1 := Header_init ''Location'' None F_None NEEDS_RESPONSE)) 1
      (Some (ex_response ''ok''))) = Inr ()"
proof -
  have c1: "call_function ex_lib
      (ex_heap(1 := Header_init ''Server'' None F_None NEEDS_RESPONSE)) 1
      [A_response (Some (ex_response ''ok''))]
     = Inr (Some ''nginx'', ex_heap(1 := Header_init ''Server'' None F_None NEEDS_RESPONSE), [])"
    by (simp add: call_function_def as_response_def header_extract_from_response_def
        Header_init_response_fields ex_response_def)
  have c2: "call_function ex_lib
      (ex_heap(1 := Header_init ''Location'' None F_None NEEDS_RESPONSE)) 1
      [A_response (Some (ex_response ''ok''))]
     = Inr (None, ex_heap(1 := Header_init ''Location'' None F_None NEEDS_RESPONSE), [])"
    by (simp add: call_function_def as_response_def header_extract_from_response_def
        Header_init_response_fields ex_response_def)
  have c3: "call_function ex_lib
      (ex_heap(1 := Header_init ''Server'' None F_None NEEDS_RESPONSE)) 1 [A_response None]
     = Inl AttributeError"
    by (simp add: call_function_def as_response_def Header_init_response_fields)
  have nf: "not_found ex_lib (ex_heap(1 := Header_init ''Location'' None F_None NEEDS_RESPONSE)) 1
        (ex_response ''ok'')"
    by (simp add: not_found_def Header_init_response_fields ex_response_def)
  have upd: "(Header_init ''Server'' None F_None NEEDS_RESPONSE)\<lparr>pvalue := Some ''nginx''\<rparr>
      = Header_init ''Server'' (Some ''nginx'') F_None NEEDS_RESPONSE"
    by (simp add: Header_init_def Plugin_init_def)
  have w1: "extract_value_from_response ex_lib
      (ex_heap(1 := Header_init ''Server'' None F_None NEEDS_RESPONSE)) 1
      (Some (ex_response ''ok''))
     = Inr ((), ex_heap(1 := Header_init ''Server'' (Some ''nginx'') F_None NEEDS_RESPONSE),
            [Log DEBUG ''Found ouput %s = %s'' [''Server'', ''nginx'']])"
    using c1 upd
      extract_value_from_response_outcomes
        [where L = ex_lib and h = "ex_heap(1 := Header_init ''Server'' None F_None NEEDS_RESPONSE)"
           and self = 1 and resp = "Some (ex_response ''ok'')" and out = "Some ''nginx''"
           and hq = "ex_heap(1 := Header_init ''Server'' None F_None NEEDS_RESPONSE)"
           and logs = "[]", THEN conjunct1]
    by (simp add: Header_init_response_fields str_opt_def)
  have w2: "extract_value_from_response ex_lib
      (ex_heap(1 := Header_init ''Location'' None F_None NEEDS_RESPONSE)) 1
      (Some (ex_response ''ok''))
     = Inr ((), ex_heap(1 := Header_init ''Location'' None F_None NEEDS_RESPONSE),
            [Log WARNING ''Couldn't extract output: %s'' [''Location'']])"
    using c2
      extract_value_from_response_outcomes
        [where L = ex_lib and h = "ex_heap(1 := Header_init ''Location'' None F_None NEEDS_RESPONSE)"
           and self = 1 and resp = "Some (ex_response ''ok'')" and out = None
           and hq = "ex_heap(1 := Header_init ''Location'' None F_None NEEDS_RESPONSE)"
           and logs = "[]", THEN conjunct1]
    by (simp add: Header_init_response_fields)
  have w3: "extract_value_from_response ex_lib
      (ex_heap(1 := Header_init ''Server'' None F_None NEEDS_RESPONSE)) 1 None
     = Inl AttributeError"
    using c3
      extract_value_from_response_outcomes
        [where L = ex_lib and h = "ex_heap(1 := Header_init ''Server'' None F_None NEEDS_RESPONSE)"
           and self = 1 and resp = None and e = AttributeError, THEN conjunct2, THEN conjunct1]
    by simp
  have w4: "returned (extract_value_from_response ex_lib
      (ex_heap(1 := Header_init ''Location'' None F_None NEEDS_RESPONSE)) 1
      (Some (ex_response ''ok''))) = Inr ()"
    using nf
      extract_value_from_response_outcomes
        [where L = ex_lib and h = "ex_heap(1 := Header_init ''Location'' None F_None NEEDS_RESPONSE)"
           and self = 1 and r = "ex_response ''ok''", THEN conjunct2, THEN conjunct2]
    by simp
  show ?thesis
    using w1 w2 w3 w4 nf by simp
qed

text \<open>
  Claim C3 as stated fails in three ways. A header that the response carries with an
  empty value is a result that is not absent, yet the method logs the warning and does
  not overwrite the value. A cookie built with the value \<open>"seed"\<close> keeps it when the
  response has no such cookie: after the absent result the plugin's value is not absent.
  And the method raises on input that is well formed: IndexError when a pattern without
  a capture group matches (the default \<open>extract\<close> is 0 and \<open>groups()\<close> is empty), and
  TypeError when a key step of the path meets a number of the document.
\<close>

theorem extract_value_from_response_counterexample:
  \<open>returned (call_function ex_lib
      (ex_heap(1 := Header_init ''X-Token'' None F_None NEEDS_RESPONSE)) 1
      [A_response (Some (ex_response ''ok''))]) = Inr (Some [])
   \<and> extract_value_from_response ex_lib
      (ex_heap(1 := Header_init ''X-Token'' None F_None NEEDS_RESPONSE)) 1
      (Some (ex_response ''ok''))
     = Inr ((), ex_heap(1 := Header_init ''X-Token'' None F_None NEEDS_RESPONSE),
            [Log WARNING ''Couldn't extract output: %s'' [''X-Token'']])
   \<and> pvalue (Header_init ''X-Token'' None F_None NEEDS_RESPONSE) = None
   \<and> returned (call_function ex_lib
      (ex_heap(1 := Cookie_init ''sid'' (Some ''seed'') F_None NEEDS_RESPONSE)) 1
      [A_response (Some (ex_response ''ok''))]) = Inr None
   \<and> value_after (extract_value_from_response ex_lib
      (ex_heap(1 := Cookie_init ''sid'' (Some ''seed'') F_None NEEDS_RESPONSE)) 1
      (Some (ex_response ''ok''))) 1 = Inr (Some ''seed'')
   \<and> extract_value_from_response ex_lib
      (ex_heap(1 := Regex_init ''csrf'' ''token=[a-z]+'' 0)) 1
      (Some (ex_response ''token=abc'')) = Inl IndexError
   \<and> extract_value_from_response ex_lib
      (ex_heap(1 := Json_init ''j'' ''n[1].x'' F_None NEEDS_RESPONSE)) 1
      (Some (ex_response ''{"a": {"b": "c"}, "n": [1, 2]}'')) = Inl TypeError\<close>
proof -
  have design: "returned (call_function ex_lib
      (ex_heap(1 := Header_init ''X-Token'' None F_None NEEDS_RESPONSE)) 1
      [A_response (Some (ex_response ''ok''))]) = Inr (Some [])
   \<and> extract_value_from_response ex_lib
      (ex_heap(1 := Header_init ''X-Token'' None F_None NEEDS_RESPONSE)) 1
      (Some (ex_response ''ok''))
     = Inr ((), ex_heap(1 := Header_init ''X-Token'' None F_None NEEDS_RESPONSE),
            [Log WARNING ''Couldn't extract output: %s'' [''X-Token'']])
   \<and> pvalue (Header_init ''X-Token'' None F_None NEEDS_RESPONSE) = None
   \<and> returned (call_function ex_lib
      (ex_heap(1 := Cookie_init ''sid'' (Some ''seed'') F_None NEEDS_RESPONSE)) 1
      [A_response (Some (ex_response ''ok''))]) = Inr None
   \<and> value_after (extract_value_from_response ex_lib
      (ex_heap(1 := Cookie_init ''sid'' (Some ''seed'') F_None NEEDS_RESPONSE)) 1
      (Some (ex_response ''ok''))) 1 = Inr (Some ''seed'')"
    by (simp add: returned_def value_after_def extract_value_from_response_def call_function_def
        as_response_def header_extract_from_response_def cookie_extract_from_response_def
        Header_init_response_fields Cookie_init_response_fields ex_response_def truthy_def)
  have regex: "extract_value_from_response ex_lib
      (ex_heap(1 := Regex_init ''csrf'' ''token=[a-z]+'' 0)) 1
      (Some (ex_response ''token=abc'')) = Inl IndexError"
    by (simp add: extract_value_from_response_def call_function_def as_response_def
        extract_regex_def Regex_init_fields ex_lib_def ex_re_search_def ex_response_def
        py_index_def)
  have one: "py_int (py_strip ''[]'' ''[1]'') = Inr 1"
    by (simp add: py_strip_def py_int_def py_isspace_def is_digit_def digit_val_def)
  have loop: "json_loop
      (JDict [(''a'', JDict [(''b'', JStr ''c'')]), (''n'', JList [JInt 1, JInt 2])])
      [''n'', ''[1]'', ''x''] = Inl TypeError"
    by (simp add: one startswith_def contains_str_def getitem_str_def py_len_def
        getitem_int_def py_index_def)
  have json: \<open>extract_value_from_response ex_lib
      (ex_heap(1 := Json_init ''j'' ''n[1].x'' F_None NEEDS_RESPONSE)) 1
      (Some (ex_response ''{"a": {"b": "c"}, "n": [1, 2]}'')) = Inl TypeError\<close>
    using loop
    by (simp add: extract_value_from_response_def call_function_def as_response_def
        extract_json_from_response_def extract_json_field_def Json_init_fields ex_lib_def
        ex_json_loads_def ex_parse_json_filter_def ex_response_def)
  show ?thesis
    using design regex json by simp
qed

end
